theory Spec2Isabelle
  imports Complex_Main "HOL-Library.Option_ord"
begin

section \<open>Data model\<close>

text \<open>
  The application (\<^verbatim>\<open>database_app.py\<close>) talks to an SQLite store. Each table is a list
  of rows, a row is a record of the columns that the modelled statements read or write.
  Column names carry the alias that the queries use for their table (\<open>s\<close>, \<open>p\<close>, \<open>c\<close>,
  \<open>co\<close>, \<open>e\<close>). \<open>Grade\<close> is the only nullable column of the model: the \<open>INSERT\<close> of
  \<open>enroll_student\<close> leaves it out.
\<close>

record student_row =
  s_StudentID :: int
  s_FirstName :: string
  s_LastName :: string
  s_Email :: string
  s_ProgramID :: int
  s_Status :: string

record program_row =
  p_ProgramID :: int
  p_ProgramName :: string

record course_row =
  c_CourseID :: int
  c_Credits :: int

record course_offering_row =
  co_OfferingID :: int
  co_CourseID :: int
  co_Semester :: string
  co_Year :: int
  co_MaxStudents :: int
  co_CurrentEnrollment :: int

record enrollment_row =
  e_EnrollmentID :: int
  e_StudentID :: int
  e_OfferingID :: int
  e_Grade :: "string option"
  e_Status :: string

record database =
  Student :: "student_row list"
  Program :: "program_row list"
  Course :: "course_row list"
  CourseOffering :: "course_offering_row list"
  Enrollment :: "enrollment_row list"

section \<open>The connection: \<open>DatabaseManager\<close>\<close>

text \<open>
  \<open>db\<close> is the database as the connection sees it, uncommitted changes included.
  \<open>saved\<close> is the snapshot to which a rollback returns: \<open>None\<close> when no transaction is
  open. \<open>writes\<close> counts the data-modifying statements (\<open>INSERT\<close>, \<open>UPDATE\<close>) that
  were sent to the store; it is a ghost counter, used to state that a check comes before
  any write.
\<close>

record connection =
  db :: database
  saved :: "database option"
  writes :: nat

text \<open>\<^verbatim>\<open>cursor.execute("BEGIN TRANSACTION")\<close>: SQLite refuses a nested transaction.\<close>

definition begin_transaction :: "connection \<Rightarrow> string + connection" where
  "begin_transaction c =
     (case saved c of
        Some _ \<Rightarrow> Inl ''cannot start a transaction within a transaction''
      | None \<Rightarrow> Inr (c\<lparr>saved := Some (db c)\<rparr>))"

text \<open>
  The module \<open>sqlite3\<close> opens a transaction by itself before an \<open>INSERT\<close> or
  \<open>UPDATE\<close> when none is open (the connection is created with the default isolation level).
\<close>

definition implicit_begin :: "connection \<Rightarrow> connection" where
  "implicit_begin c = (case saved c of Some _ \<Rightarrow> c | None \<Rightarrow> c\<lparr>saved := Some (db c)\<rparr>)"

text \<open>\<open>DatabaseManager.commit\<close> and \<open>DatabaseManager.rollback\<close>.\<close>

definition commit :: "connection \<Rightarrow> connection" where
  "commit c = c\<lparr>saved := None\<rparr>"

definition rollback :: "connection \<Rightarrow> connection" where
  "rollback c = (case saved c of None \<Rightarrow> c | Some d \<Rightarrow> c\<lparr>db := d, saved := None\<rparr>)"

text \<open>
  Every mutating operation has the shape \<^verbatim>\<open>try: ... except Exception as e:
  self.db.rollback(); raise Exception(f"<prefix>{e}")\<close>. The body returns the raised message
  or the returned value, with the connection as it is at that point.
\<close>

definition except_rollback ::
  "string \<Rightarrow> (string + 'a) \<times> connection \<Rightarrow> (string + 'a) \<times> connection" where
  "except_rollback prefix r =
     (case r of
        (Inl e, c) \<Rightarrow> (Inl (prefix @ e), rollback c)
      | (Inr v, c) \<Rightarrow> (Inr v, c))"

section \<open>The store's side of an insert into \<open>Enrollment\<close>\<close>

text \<open>
  The schema (\<^verbatim>\<open>schema/create_schema.sql\<close>) is not among the sources. What the store
  does on an insert into \<open>Enrollment\<close> is taken from the spec: it assigns the identifier,
  it enforces the declared foreign keys (\<open>connect\<close> switches them on) and the uniqueness
  of (StudentID, OfferingID), and a trigger keeps \<open>CurrentEnrollment\<close> in step.
\<close>

text \<open>
  Modelled from the spec: the auto-assigned identifier of a new \<open>Enrollment\<close> row
  (the table definition is missing). It is SQLite's row identifier: one more than the
  largest in the table, 1 in an empty table.
\<close>

definition next_rowid :: "enrollment_row list \<Rightarrow> int" where
  "next_rowid es = (if es = [] then 1 else Max (set (map e_EnrollmentID es)) + 1)"

text \<open>
  Modelled from the spec: the trigger on \<open>Enrollment\<close> (the schema is missing), which
  increments \<open>CurrentEnrollment\<close> of the offering as a side effect of the insert.
\<close>

definition enrollment_insert_trigger :: "int \<Rightarrow> course_offering_row list \<Rightarrow> course_offering_row list" where
  "enrollment_insert_trigger offering_id offerings =
     map (\<lambda>co. if co_OfferingID co = offering_id
               then co\<lparr>co_CurrentEnrollment := co_CurrentEnrollment co + 1\<rparr> else co) offerings"

text \<open>
  Modelled from the spec: the constraints and the trigger that the store applies to
  \<^verbatim>\<open>INSERT INTO Enrollment (StudentID, OfferingID, Status) VALUES (?, ?, 'Enrolled')\<close>
  (the schema is missing); the statement itself is the one of \<open>enroll_student\<close>.
  A statement that violates a constraint changes nothing and leaves the transaction open;
  the result is the message of the \<open>IntegrityError\<close>, or \<open>cursor.lastrowid\<close>.
\<close>

definition insert_enrollment :: "connection \<Rightarrow> int \<Rightarrow> int \<Rightarrow> (string + int) \<times> connection" where
  "insert_enrollment c student_id offering_id =
     (let c1 = (implicit_begin c)\<lparr>writes := Suc (writes c)\<rparr>; d = db c1 in
      if find (\<lambda>e. e_StudentID e = student_id \<and> e_OfferingID e = offering_id) (Enrollment d) \<noteq> None
      then (Inl ''UNIQUE constraint failed: Enrollment.StudentID, Enrollment.OfferingID'', c1)
      else if find (\<lambda>s. s_StudentID s = student_id) (Student d) = None
            \<or> find (\<lambda>co. co_OfferingID co = offering_id) (CourseOffering d) = None
      then (Inl ''FOREIGN KEY constraint failed'', c1)
      else
        (let rowid = next_rowid (Enrollment d);
             row = \<lparr>e_EnrollmentID = rowid, e_StudentID = student_id, e_OfferingID = offering_id,
                    e_Grade = None, e_Status = ''Enrolled''\<rparr>
         in (Inr rowid,
             c1\<lparr>db := d\<lparr>CourseOffering := enrollment_insert_trigger offering_id (CourseOffering d),
                        Enrollment := Enrollment d @ [row]\<rparr>\<rparr>)))"

text \<open>
  \<^verbatim>\<open>UPDATE Enrollment SET ... WHERE ...\<close>: every row that satisfies the condition is
  rewritten; the result is \<open>cursor.rowcount\<close>, the number of rows matched.
\<close>

definition update_enrollment ::
  "(enrollment_row \<Rightarrow> bool) \<Rightarrow> (enrollment_row \<Rightarrow> enrollment_row) \<Rightarrow> connection \<Rightarrow> nat \<times> connection" where
  "update_enrollment cond set_cols c =
     (let c1 = (implicit_begin c)\<lparr>writes := Suc (writes c)\<rparr>; d = db c1 in
      (length (filter cond (Enrollment d)),
       c1\<lparr>db := d\<lparr>Enrollment := map (\<lambda>e. if cond e then set_cols e else e) (Enrollment d)\<rparr>\<rparr>))"

section \<open>\<open>EnrollmentOperations\<close>\<close>

subsection \<open>\<open>enroll_student\<close>\<close>

definition enroll_student_try :: "connection \<Rightarrow> int \<Rightarrow> int \<Rightarrow> (string + int) \<times> connection" where
  "enroll_student_try c student_id offering_id =
     (case begin_transaction c of
        Inl e \<Rightarrow> (Inl e, c)
      | Inr c1 \<Rightarrow>
         (case find (\<lambda>co. co_OfferingID co = offering_id) (CourseOffering (db c1)) of
            None \<Rightarrow> (Inl ''Course offering not found'', c1)
          | Some offering \<Rightarrow>
              if co_CurrentEnrollment offering \<ge> co_MaxStudents offering
              then (Inl ''Course offering is full'', c1)
              else if find (\<lambda>e. e_StudentID e = student_id \<and> e_OfferingID e = offering_id)
                        (Enrollment (db c1)) \<noteq> None
              then (Inl ''Student is already enrolled in this course'', c1)
              else
                (case insert_enrollment c1 student_id offering_id of
                   (Inl e, c2) \<Rightarrow> (Inl e, c2)
                 | (Inr lastrowid, c2) \<Rightarrow> (Inr lastrowid, commit c2))))"

definition enroll_student :: "connection \<Rightarrow> int \<Rightarrow> int \<Rightarrow> (string + int) \<times> connection" where
  "enroll_student c student_id offering_id =
     except_rollback ''Enrollment failed: '' (enroll_student_try c student_id offering_id)"

subsection \<open>\<open>update_grade\<close>\<close>

definition valid_grades :: "string list" where
  "valid_grades = [''A'', ''B'', ''C'', ''D'', ''F'', ''P'', ''W'']"

text \<open>\<^verbatim>\<open>sep.join(xs)\<close> of Python.\<close>

fun join :: "string \<Rightarrow> string list \<Rightarrow> string" where
  "join sep [] = []"
| "join sep [x] = x"
| "join sep (x # y # ys) = x @ sep @ join sep (y # ys)"

definition update_grade_try :: "connection \<Rightarrow> int \<Rightarrow> string \<Rightarrow> (string + bool) \<times> connection" where
  "update_grade_try c enrollment_id grade =
     (if grade \<notin> set valid_grades
      then (Inl (''Invalid grade. Must be one of: '' @ join '', '' valid_grades), c)
      else
        (case update_enrollment (\<lambda>e. e_EnrollmentID e = enrollment_id)
                (\<lambda>e. e\<lparr>e_Grade := Some grade, e_Status := ''Completed''\<rparr>) c of
           (rowcount, c1) \<Rightarrow>
             if rowcount = 0 then (Inl ''Enrollment not found'', c1)
             else (Inr True, commit c1)))"

definition update_grade :: "connection \<Rightarrow> int \<Rightarrow> string \<Rightarrow> (string + bool) \<times> connection" where
  "update_grade c enrollment_id grade =
     except_rollback ''Grade update failed: '' (update_grade_try c enrollment_id grade)"

subsection \<open>\<open>withdraw_from_course\<close>\<close>

definition withdraw_from_course_try :: "connection \<Rightarrow> int \<Rightarrow> (string + bool) \<times> connection" where
  "withdraw_from_course_try c enrollment_id =
     (case begin_transaction c of
        Inl e \<Rightarrow> (Inl e, c)
      | Inr c1 \<Rightarrow>
         (case update_enrollment (\<lambda>e. e_EnrollmentID e = enrollment_id \<and> e_Status e = ''Enrolled'')
                 (\<lambda>e. e\<lparr>e_Status := ''Withdrawn'', e_Grade := Some ''W''\<rparr>) c1 of
            (rowcount, c2) \<Rightarrow>
              if rowcount = 0 then (Inl ''Enrollment not found or already completed'', c2)
              else (Inr True, commit c2)))"

definition withdraw_from_course :: "connection \<Rightarrow> int \<Rightarrow> (string + bool) \<times> connection" where
  "withdraw_from_course c enrollment_id =
     except_rollback ''Withdrawal failed: '' (withdraw_from_course_try c enrollment_id)"

section \<open>SQL expressions and aggregates\<close>

text \<open>
  A nullable value is an \<open>option\<close>, \<open>None\<close> for \<open>NULL\<close>. A \<open>REAL\<close> value
  is the rational number it stands for: sums and quotients are exact. Rounding to decimal
  places is where the doubles of the store show, and the model does not fix it: the
  function \<open>ROUND\<close> of the store is a parameter of every query that calls it.
\<close>

text \<open>The aggregate functions skip \<open>NULL\<close>.\<close>

fun non_null :: "'a option list \<Rightarrow> 'a list" where
  "non_null [] = []"
| "non_null (None # xs) = non_null xs"
| "non_null (Some v # xs) = v # non_null xs"

text \<open>\<open>COUNT(x)\<close>, \<open>COUNT(DISTINCT x)\<close>, \<open>SUM(x)\<close>, \<open>AVG(x)\<close>: the last two are
  \<open>NULL\<close> when no value is left.\<close>

definition sql_count :: "'a option list \<Rightarrow> int" where
  "sql_count xs = int (length (non_null xs))"

definition sql_count_distinct :: "'a option list \<Rightarrow> int" where
  "sql_count_distinct xs = int (length (remdups (non_null xs)))"

definition sql_sum :: "int option list \<Rightarrow> int option" where
  "sql_sum xs = (if non_null xs = [] then None else Some (sum_list (non_null xs)))"

definition sql_avg :: "rat option list \<Rightarrow> rat option" where
  "sql_avg xs =
     (if non_null xs = [] then None
      else Some (sum_list (non_null xs) / of_nat (length (non_null xs))))"

text \<open>
  \<open>ROUND(x, n)\<close> is a function of the store, not of the application. The model takes it
  as the parameter \<open>rnd\<close>, with \<open>rnd n v\<close> for \<open>ROUND(v, n)\<close> on a value that is
  not \<open>NULL\<close>; \<open>NULL\<close> stays \<open>NULL\<close>.
\<close>

definition sql_round :: "(nat \<Rightarrow> rat \<Rightarrow> rat) \<Rightarrow> rat option \<Rightarrow> nat \<Rightarrow> rat option" where
  "sql_round rnd x n = map_option (rnd n) x"

text \<open>
  What a theorem asks of \<open>ROUND\<close> where it speaks of a value rounded to \<open>n\<close> decimal
  places: the result is a whole number of units of the \<open>n\<close>-th decimal place, and it is
  at most half such a unit away from the argument. Which neighbour a tie goes to is left
  open. SQLite rounds the double nearest to the value, so that \<open>ROUND(107.0 / 40, 2)\<close>
  is 2.67 where the exact value 2.675 is a tie; 2.67 and 2.68 are both within the bound.
\<close>

definition rounds_to_decimals :: "(nat \<Rightarrow> rat \<Rightarrow> rat) \<Rightarrow> bool" where
  "rounds_to_decimals rnd \<longleftrightarrow>
     (\<forall>n v. (\<exists>k::int. rnd n v = of_int k / 10 ^ n) \<and> \<bar>rnd n v - v\<bar> \<le> 1 / (2 * 10 ^ n))"

text \<open>
  One function of that kind, used for the concrete instances below: it sends a tie away
  from zero. It is not meant as SQLite's function, with which it disagrees on some ties.
\<close>

definition round_to :: "nat \<Rightarrow> rat \<Rightarrow> rat" where
  "round_to n v =
     (if v \<ge> 0 then of_int \<lfloor>v * 10 ^ n + 1 / 2\<rfloor> / 10 ^ n
      else - (of_int \<lfloor>- v * 10 ^ n + 1 / 2\<rfloor> / 10 ^ n))"

text \<open>\<open>x / y\<close>: \<open>NULL\<close> when an operand is \<open>NULL\<close> or the divisor is zero.\<close>

definition sql_div :: "rat option \<Rightarrow> rat option \<Rightarrow> rat option" where
  "sql_div x y =
     (case (x, y) of
        (Some a, Some b) \<Rightarrow> if b = 0 then None else Some (a / b)
      | _ \<Rightarrow> None)"

text \<open>\<open>x < y\<close> in a \<open>HAVING\<close> or \<open>WHERE\<close> clause: a comparison with \<open>NULL\<close> does
  not select the row.\<close>

definition sql_less :: "rat option \<Rightarrow> rat \<Rightarrow> bool" where
  "sql_less x y = (case x of None \<Rightarrow> False | Some a \<Rightarrow> a < y)"

text \<open>
  \<^verbatim>\<open>CASE e.Grade WHEN 'A' THEN 4.0 WHEN 'B' THEN 3.0 WHEN 'C' THEN 2.0 WHEN 'D' THEN 1.0
  WHEN 'F' THEN 0.0 ELSE NULL END\<close>, as \<open>calculate_gpa\<close> and \<open>students_at_risk\<close>
  write it (the latter without the \<open>ELSE\<close>, which is the same).
\<close>

definition grade_points :: "string option \<Rightarrow> rat option" where
  "grade_points g =
     (if g = Some ''A'' then Some 4
      else if g = Some ''B'' then Some 3
      else if g = Some ''C'' then Some 2
      else if g = Some ''D'' then Some 1
      else if g = Some ''F'' then Some 0
      else None)"

text \<open>\<open>GROUP BY\<close>: one group for each value of the key, with the rows that have it.\<close>

definition group_by :: "('a \<Rightarrow> 'k) \<Rightarrow> 'a list \<Rightarrow> ('k \<times> 'a list) list" where
  "group_by key rows = map (\<lambda>k. (k, filter (\<lambda>r. key r = k) rows)) (remdups (map key rows))"

section \<open>\<open>StudentOperations.calculate_gpa\<close>\<close>

record gpa_row =
  g_CoursesCompleted :: int
  g_TotalCredits :: "int option"
  g_GPA :: "rat option"

text \<open>The rows of \<^verbatim>\<open>FROM Enrollment e JOIN CourseOffering co ON ... JOIN Course c ON ...
  WHERE e.StudentID = ? AND e.Grade IS NOT NULL\<close>.\<close>

definition calculate_gpa_rows ::
  "database \<Rightarrow> int \<Rightarrow> (enrollment_row \<times> course_offering_row \<times> course_row) list" where
  "calculate_gpa_rows d student_id =
     [(e, co, c).
        e \<leftarrow> Enrollment d,
        co \<leftarrow> CourseOffering d, e_OfferingID e = co_OfferingID co,
        c \<leftarrow> Course d, co_CourseID co = c_CourseID c,
        e_StudentID e = student_id \<and> e_Grade e \<noteq> None]"

text \<open>The query has aggregates and no \<open>GROUP BY\<close>: \<open>fetchone\<close> returns its single row.\<close>

definition calculate_gpa :: "(nat \<Rightarrow> rat \<Rightarrow> rat) \<Rightarrow> database \<Rightarrow> int \<Rightarrow> gpa_row" where
  "calculate_gpa rnd d student_id =
     (let rows = calculate_gpa_rows d student_id in
      \<lparr>g_CoursesCompleted = sql_count (map (\<lambda>(e, co, c). Some (e_EnrollmentID e)) rows),
       g_TotalCredits = sql_sum (map (\<lambda>(e, co, c). Some (c_Credits c)) rows),
       g_GPA = sql_round rnd (sql_avg (map (\<lambda>(e, co, c). grade_points (e_Grade e)) rows)) 2\<rparr>)"

section \<open>\<open>ReportingOperations\<close>\<close>

subsection \<open>\<open>semester_enrollment_report\<close>\<close>

record semester_report_row =
  CoursesOffered :: int
  UniqueStudents :: int
  TotalEnrollments :: int
  TotalCapacity :: "int option"
  TotalEnrolled :: "int option"
  OverallFillRate :: "rat option"

text \<open>\<^verbatim>\<open>LEFT JOIN Enrollment e ON co.OfferingID = e.OfferingID\<close>: the enrollments of the
  offering, or one row of \<open>NULL\<close>s when it has none.\<close>

definition left_join_enrollment :: "course_offering_row \<Rightarrow> enrollment_row list \<Rightarrow> enrollment_row option list" where
  "left_join_enrollment co es =
     (let matching = filter (\<lambda>e. co_OfferingID co = e_OfferingID e) es in
      if matching = [] then [None] else map Some matching)"

definition semester_enrollment_rows ::
  "database \<Rightarrow> string \<Rightarrow> int \<Rightarrow> (course_offering_row \<times> enrollment_row option) list" where
  "semester_enrollment_rows d semester year =
     [(co, e).
        co \<leftarrow> CourseOffering d,
        e \<leftarrow> left_join_enrollment co (Enrollment d),
        co_Semester co = semester \<and> co_Year co = year]"

definition semester_enrollment_report ::
  "(nat \<Rightarrow> rat \<Rightarrow> rat) \<Rightarrow> database \<Rightarrow> string \<Rightarrow> int \<Rightarrow> semester_report_row" where
  "semester_enrollment_report rnd d semester year =
     (let rows = semester_enrollment_rows d semester year;
          capacity = sql_sum (map (\<lambda>(co, e). Some (co_MaxStudents co)) rows);
          enrolled = sql_sum (map (\<lambda>(co, e). Some (co_CurrentEnrollment co)) rows)
      in
      \<lparr>CoursesOffered = sql_count_distinct (map (\<lambda>(co, e). Some (co_OfferingID co)) rows),
       UniqueStudents = sql_count_distinct (map (\<lambda>(co, e). map_option e_StudentID e) rows),
       TotalEnrollments = sql_count (map (\<lambda>(co, e). map_option e_EnrollmentID e) rows),
       TotalCapacity = capacity,
       TotalEnrolled = enrolled,
       OverallFillRate =
         sql_round rnd (map_option (\<lambda>x. x * 100)
           (sql_div (map_option of_int enrolled) (map_option of_int capacity))) 1\<rparr>)"

subsection \<open>\<open>students_at_risk\<close>\<close>

record risk_row =
  r_StudentID :: int
  r_StudentName :: string
  r_Email :: string
  r_ProgramName :: string
  r_CoursesCompleted :: int
  r_GPA :: "rat option"
  r_FailedCourses :: int

text \<open>The rows of \<^verbatim>\<open>FROM Student s JOIN Program p ON ... JOIN Enrollment e ON ...
  WHERE e.Grade IS NOT NULL AND s.Status = 'Active'\<close>.\<close>

definition students_at_risk_rows ::
  "database \<Rightarrow> (student_row \<times> program_row \<times> enrollment_row) list" where
  "students_at_risk_rows d =
     [(s, p, e).
        s \<leftarrow> Student d,
        p \<leftarrow> Program d, s_ProgramID s = p_ProgramID p,
        e \<leftarrow> Enrollment d, s_StudentID s = e_StudentID e,
        e_Grade e \<noteq> None \<and> s_Status s = ''Active'']"

text \<open>\<^verbatim>\<open>GROUP BY s.StudentID, StudentName, s.Email, p.ProgramName\<close>, where
  \<open>StudentName\<close> is \<^verbatim>\<open>s.FirstName || ' ' || s.LastName\<close>.\<close>

definition risk_key :: "student_row \<times> program_row \<times> enrollment_row \<Rightarrow> int \<times> string \<times> string \<times> string" where
  "risk_key = (\<lambda>(s, p, e).
     (s_StudentID s, s_FirstName s @ '' '' @ s_LastName s, s_Email s, p_ProgramName p))"

text \<open>The select list, evaluated on one group.\<close>

definition risk_select ::
  "(nat \<Rightarrow> rat \<Rightarrow> rat) \<Rightarrow>
   (int \<times> string \<times> string \<times> string) \<times> (student_row \<times> program_row \<times> enrollment_row) list \<Rightarrow> risk_row" where
  "risk_select rnd = (\<lambda>((student_id, student_name, email, program_name), rows).
     \<lparr>r_StudentID = student_id, r_StudentName = student_name, r_Email = email,
      r_ProgramName = program_name,
      r_CoursesCompleted = sql_count (map (\<lambda>(s, p, e). Some (e_EnrollmentID e)) rows),
      r_GPA = sql_round rnd (sql_avg (map (\<lambda>(s, p, e). grade_points (e_Grade e)) rows)) 2,
      r_FailedCourses =
        sql_count (map (\<lambda>(s, p, e). if e_Grade e = Some ''F'' then Some (1::int) else None) rows)\<rparr>)"

text \<open>\<^verbatim>\<open>HAVING GPA < ? ORDER BY GPA ASC\<close>: both name the column \<open>GPA\<close> of the select
  list, the rounded average; \<open>NULL\<close> sorts first.\<close>

definition students_at_risk :: "(nat \<Rightarrow> rat \<Rightarrow> rat) \<Rightarrow> database \<Rightarrow> rat \<Rightarrow> risk_row list" where
  "students_at_risk rnd d gpa_threshold =
     sort_key r_GPA
       (filter (\<lambda>r. sql_less (r_GPA r) gpa_threshold)
          (map (risk_select rnd) (group_by risk_key (students_at_risk_rows d))))"

section \<open>The constraints of the schema\<close>

text \<open>
  Modelled from the spec: the key and foreign-key declarations of the tables (the schema
  is missing). The spec gives every entity a surrogate identity and declares foreign keys,
  which \<open>connect\<close> switches on: every enrollment refers to an existing offering, every
  offering to an existing course, every student to an existing program.
\<close>

definition integrity :: "database \<Rightarrow> bool" where
  "integrity d \<longleftrightarrow>
     distinct (map s_StudentID (Student d)) \<and>
     distinct (map p_ProgramID (Program d)) \<and>
     distinct (map c_CourseID (Course d)) \<and>
     distinct (map co_OfferingID (CourseOffering d)) \<and>
     distinct (map e_EnrollmentID (Enrollment d)) \<and>
     (\<forall>s \<in> set (Student d). s_ProgramID s \<in> p_ProgramID ` set (Program d)) \<and>
     (\<forall>co \<in> set (CourseOffering d). co_CourseID co \<in> c_CourseID ` set (Course d)) \<and>
     (\<forall>e \<in> set (Enrollment d). e_OfferingID e \<in> co_OfferingID ` set (CourseOffering d))"

section \<open>What the spec says the aggregates are\<close>

text \<open>The graded enrollments of a student, the credits of the course an enrollment is
  for, the points of the grades that have points, and their average as the store's
  \<open>ROUND\<close> rounds it to two decimal places.\<close>

definition graded_enrollments :: "database \<Rightarrow> int \<Rightarrow> enrollment_row list" where
  "graded_enrollments d student_id =
     filter (\<lambda>e. e_StudentID e = student_id \<and> e_Grade e \<noteq> None) (Enrollment d)"

definition credits_of :: "database \<Rightarrow> enrollment_row \<Rightarrow> int" where
  "credits_of d e =
     (case find (\<lambda>co. co_OfferingID co = e_OfferingID e) (CourseOffering d) of
        None \<Rightarrow> 0
      | Some co \<Rightarrow>
          (case find (\<lambda>c. c_CourseID c = co_CourseID co) (Course d) of
             None \<Rightarrow> 0
           | Some c \<Rightarrow> c_Credits c))"

definition grade_point_table :: "(string \<times> rat) list" where
  "grade_point_table = [(''A'', 4), (''B'', 3), (''C'', 2), (''D'', 1), (''F'', 0)]"

definition mapped_points :: "database \<Rightarrow> int \<Rightarrow> rat list" where
  "mapped_points d student_id =
     List.map_filter (\<lambda>e. Option.bind (e_Grade e) (map_of grade_point_table))
       (graded_enrollments d student_id)"

definition rounded_gpa :: "(nat \<Rightarrow> rat \<Rightarrow> rat) \<Rightarrow> database \<Rightarrow> int \<Rightarrow> rat option" where
  "rounded_gpa rnd d student_id =
     (let points = mapped_points d student_id in
      if points = [] then None
      else Some (rnd 2 (sum_list points / of_nat (length points))))"

section \<open>Auxiliary notions for the groups of \<open>students_at_risk\<close>\<close>

text \<open>The program of a student, the enrollments that the joins and the \<open>WHERE\<close>
  clause keep for a student, the rows and the key of the group of a student, and the row
  that the select list makes of the group.\<close>

definition program_of :: "database \<Rightarrow> student_row \<Rightarrow> program_row" where
  "program_of d s = the (find (\<lambda>p. p_ProgramID p = s_ProgramID s) (Program d))"

definition active_graded :: "database \<Rightarrow> student_row \<Rightarrow> enrollment_row list" where
  "active_graded d s =
     filter (\<lambda>e. s_StudentID s = e_StudentID e \<and> e_Grade e \<noteq> None \<and> s_Status s = ''Active'')
       (Enrollment d)"

definition risk_group :: "database \<Rightarrow> student_row \<Rightarrow> (student_row \<times> program_row \<times> enrollment_row) list" where
  "risk_group d s = map (\<lambda>e. (s, program_of d s, e)) (active_graded d s)"

definition risk_key_of :: "database \<Rightarrow> student_row \<Rightarrow> int \<times> string \<times> string \<times> string" where
  "risk_key_of d s =
     (s_StudentID s, s_FirstName s @ '' '' @ s_LastName s, s_Email s,
      p_ProgramName (program_of d s))"

definition risk_row_of :: "(nat \<Rightarrow> rat \<Rightarrow> rat) \<Rightarrow> database \<Rightarrow> student_row \<Rightarrow> risk_row" where
  "risk_row_of rnd d s =
     \<lparr>r_StudentID = s_StudentID s, r_StudentName = s_FirstName s @ '' '' @ s_LastName s,
      r_Email = s_Email s, r_ProgramName = p_ProgramName (program_of d s),
      r_CoursesCompleted = int (length (active_graded d s)),
      r_GPA = sql_round rnd (sql_avg (map (\<lambda>e. grade_points (e_Grade e)) (active_graded d s))) 2,
      r_FailedCourses = int (length (filter (\<lambda>e. e_Grade e = Some ''F'') (active_graded d s)))\<rparr>"

section \<open>Sample data\<close>

text \<open>
  A small database for the concrete instances below: offering 1 has two free seats, offering 2
  is full, offering 3 has one free seat; student 2 is enrolled in offering 2.
\<close>

definition sample_db :: database where
  "sample_db =
     \<lparr>Student =
        [\<lparr>s_StudentID = 1, s_FirstName = ''Ada'', s_LastName = ''King'', s_Email = ''ada@uni.edu'',
          s_ProgramID = 1, s_Status = ''Active''\<rparr>,
         \<lparr>s_StudentID = 2, s_FirstName = ''Bob'', s_LastName = ''Ross'', s_Email = ''bob@uni.edu'',
          s_ProgramID = 1, s_Status = ''Active''\<rparr>],
      Program = [\<lparr>p_ProgramID = 1, p_ProgramName = ''Computer Science''\<rparr>],
      Course = [\<lparr>c_CourseID = 1, c_Credits = 3\<rparr>, \<lparr>c_CourseID = 2, c_Credits = 4\<rparr>],
      CourseOffering =
        [\<lparr>co_OfferingID = 1, co_CourseID = 1, co_Semester = ''Spring'', co_Year = 2024,
          co_MaxStudents = 2, co_CurrentEnrollment = 0\<rparr>,
         \<lparr>co_OfferingID = 2, co_CourseID = 2, co_Semester = ''Spring'', co_Year = 2024,
          co_MaxStudents = 1, co_CurrentEnrollment = 1\<rparr>,
         \<lparr>co_OfferingID = 3, co_CourseID = 2, co_Semester = ''Fall'', co_Year = 2024,
          co_MaxStudents = 1, co_CurrentEnrollment = 0\<rparr>],
      Enrollment =
        [\<lparr>e_EnrollmentID = 1, e_StudentID = 2, e_OfferingID = 2, e_Grade = None,
          e_Status = ''Enrolled''\<rparr>]\<rparr>"

definition sample_conn :: connection where
  "sample_conn = \<lparr>db = sample_db, saved = None, writes = 0\<rparr>"

text \<open>
  A database for the reports. Student 1 has the grades A, B, C; student 2 has F, F, C;
  student 3 has no grade yet; student 4 is inactive; student 5 has only P and W; student 6
  has D and C.
\<close>

definition report_db :: database where
  "report_db =
     \<lparr>Student =
        [\<lparr>s_StudentID = 1, s_FirstName = ''Ada'', s_LastName = ''King'', s_Email = ''ada@uni.edu'',
          s_ProgramID = 1, s_Status = ''Active''\<rparr>,
         \<lparr>s_StudentID = 2, s_FirstName = ''Bob'', s_LastName = ''Ross'', s_Email = ''bob@uni.edu'',
          s_ProgramID = 1, s_Status = ''Active''\<rparr>,
         \<lparr>s_StudentID = 3, s_FirstName = ''Cy'', s_LastName = ''Young'', s_Email = ''cy@uni.edu'',
          s_ProgramID = 2, s_Status = ''Active''\<rparr>,
         \<lparr>s_StudentID = 4, s_FirstName = ''Dee'', s_LastName = ''Snider'', s_Email = ''dee@uni.edu'',
          s_ProgramID = 2, s_Status = ''Inactive''\<rparr>,
         \<lparr>s_StudentID = 5, s_FirstName = ''Eve'', s_LastName = ''Arden'', s_Email = ''eve@uni.edu'',
          s_ProgramID = 1, s_Status = ''Active''\<rparr>,
         \<lparr>s_StudentID = 6, s_FirstName = ''Flo'', s_LastName = ''Rida'', s_Email = ''flo@uni.edu'',
          s_ProgramID = 2, s_Status = ''Active''\<rparr>],
      Program =
        [\<lparr>p_ProgramID = 1, p_ProgramName = ''Computer Science''\<rparr>,
         \<lparr>p_ProgramID = 2, p_ProgramName = ''Mathematics''\<rparr>],
      Course =
        [\<lparr>c_CourseID = 1, c_Credits = 3\<rparr>, \<lparr>c_CourseID = 2, c_Credits = 4\<rparr>,
         \<lparr>c_CourseID = 3, c_Credits = 3\<rparr>],
      CourseOffering =
        [\<lparr>co_OfferingID = 1, co_CourseID = 1, co_Semester = ''Spring'', co_Year = 2024,
          co_MaxStudents = 10, co_CurrentEnrollment = 3\<rparr>,
         \<lparr>co_OfferingID = 2, co_CourseID = 2, co_Semester = ''Spring'', co_Year = 2024,
          co_MaxStudents = 10, co_CurrentEnrollment = 4\<rparr>,
         \<lparr>co_OfferingID = 3, co_CourseID = 3, co_Semester = ''Spring'', co_Year = 2024,
          co_MaxStudents = 5, co_CurrentEnrollment = 4\<rparr>,
         \<lparr>co_OfferingID = 4, co_CourseID = 1, co_Semester = ''Fall'', co_Year = 2024,
          co_MaxStudents = 20, co_CurrentEnrollment = 1\<rparr>],
      Enrollment =
        [\<lparr>e_EnrollmentID = 1, e_StudentID = 1, e_OfferingID = 1, e_Grade = Some ''A'',
          e_Status = ''Completed''\<rparr>,
         \<lparr>e_EnrollmentID = 2, e_StudentID = 1, e_OfferingID = 2, e_Grade = Some ''B'',
          e_Status = ''Completed''\<rparr>,
         \<lparr>e_EnrollmentID = 3, e_StudentID = 1, e_OfferingID = 3, e_Grade = Some ''C'',
          e_Status = ''Completed''\<rparr>,
         \<lparr>e_EnrollmentID = 4, e_StudentID = 2, e_OfferingID = 1, e_Grade = Some ''F'',
          e_Status = ''Completed''\<rparr>,
         \<lparr>e_EnrollmentID = 5, e_StudentID = 2, e_OfferingID = 2, e_Grade = Some ''F'',
          e_Status = ''Completed''\<rparr>,
         \<lparr>e_EnrollmentID = 6, e_StudentID = 2, e_OfferingID = 3, e_Grade = Some ''C'',
          e_Status = ''Completed''\<rparr>,
         \<lparr>e_EnrollmentID = 7, e_StudentID = 3, e_OfferingID = 3, e_Grade = None,
          e_Status = ''Enrolled''\<rparr>,
         \<lparr>e_EnrollmentID = 8, e_StudentID = 4, e_OfferingID = 1, e_Grade = Some ''F'',
          e_Status = ''Completed''\<rparr>,
         \<lparr>e_EnrollmentID = 9, e_StudentID = 5, e_OfferingID = 2, e_Grade = Some ''P'',
          e_Status = ''Completed''\<rparr>,
         \<lparr>e_EnrollmentID = 10, e_StudentID = 5, e_OfferingID = 3, e_Grade = Some ''W'',
          e_Status = ''Withdrawn''\<rparr>,
         \<lparr>e_EnrollmentID = 11, e_StudentID = 6, e_OfferingID = 4, e_Grade = Some ''D'',
          e_Status = ''Completed''\<rparr>,
         \<lparr>e_EnrollmentID = 12, e_StudentID = 6, e_OfferingID = 2, e_Grade = Some ''C'',
          e_Status = ''Completed''\<rparr>]\<rparr>"

section \<open>Properties of the enrollment operations\<close>

lemmas engine_defs =
  except_rollback_def begin_transaction_def implicit_begin_def commit_def rollback_def
  insert_enrollment_def update_enrollment_def

lemmas sample_defs = sample_conn_def sample_db_def


lemma find_trigger:
  "find (\<lambda>co. co_OfferingID co = k) (enrollment_insert_trigger k offerings) =
     map_option (\<lambda>co. co\<lparr>co_CurrentEnrollment := co_CurrentEnrollment co + 1\<rparr>)
       (find (\<lambda>co. co_OfferingID co = k) offerings)"
  by (induction offerings) (auto simp: enrollment_insert_trigger_def)


lemma withdraw_from_course_result:
  assumes "saved c = None"
  shows "withdraw_from_course c enrollment_id =
    (if filter (\<lambda>e. e_EnrollmentID e = enrollment_id \<and> e_Status e = ''Enrolled'')
          (Enrollment (db c)) = []
     then (Inl ''Withdrawal failed: Enrollment not found or already completed'',
           c\<lparr>writes := Suc (writes c)\<rparr>)
     else (Inr True,
           c\<lparr>db := (db c)\<lparr>Enrollment :=
                 map (\<lambda>e. if e_EnrollmentID e = enrollment_id \<and> e_Status e = ''Enrolled''
                           then e\<lparr>e_Status := ''Withdrawn'', e_Grade := Some ''W''\<rparr> else e)
                   (Enrollment (db c))\<rparr>,
              writes := Suc (writes c)\<rparr>))"
  using assms
  by (simp add: withdraw_from_course_def withdraw_from_course_try_def engine_defs Let_def)

lemma update_grade_result:
  assumes "saved c = None" and "grade \<in> set valid_grades"
  shows "update_grade c enrollment_id grade =
    (if filter (\<lambda>e. e_EnrollmentID e = enrollment_id) (Enrollment (db c)) = []
     then (Inl ''Grade update failed: Enrollment not found'', c\<lparr>writes := Suc (writes c)\<rparr>)
     else (Inr True,
           c\<lparr>db := (db c)\<lparr>Enrollment :=
                 map (\<lambda>e. if e_EnrollmentID e = enrollment_id
                           then e\<lparr>e_Grade := Some grade, e_Status := ''Completed''\<rparr> else e)
                   (Enrollment (db c))\<rparr>,
              writes := Suc (writes c)\<rparr>))"
  using assms
  by (simp add: update_grade_def update_grade_try_def engine_defs Let_def)

text \<open>
  Claim C2. Enrolling into an existing offering whose \<open>CurrentEnrollment\<close> is at least
  \<open>MaxStudents\<close> fails with the capacity error (the source's message
  \<open>Course offering is full\<close>, which the spec names \<open>CapacityExceededError\<close>), and the
  connection is left exactly as it was: same database, no open transaction, no statement
  that writes was sent.
\<close>

theorem enroll_student_full:
  assumes "saved c = None"
    and "find (\<lambda>co. co_OfferingID co = offering_id) (CourseOffering (db c)) = Some offering"
    and "co_CurrentEnrollment offering \<ge> co_MaxStudents offering"
  shows "enroll_student c student_id offering_id =
           (Inl ''Enrollment failed: Course offering is full'', c)"
  using assms by (simp add: enroll_student_def enroll_student_try_def engine_defs)

theorem enroll_student_full_witness:
  "enroll_student sample_conn 1 2 = (Inl ''Enrollment failed: Course offering is full'', sample_conn)"
  using enroll_student_full [of sample_conn 2
      "\<lparr>co_OfferingID = 2, co_CourseID = 2, co_Semester = ''Spring'', co_Year = 2024,
        co_MaxStudents = 1, co_CurrentEnrollment = 1\<rparr>" 1]
  by (simp add: sample_defs)



text \<open>
  Claim C3, as stated, fails when the offering has exactly one free seat: the first call
  takes the seat, and the second call stops at the capacity check, which comes before the
  duplicate check. Student 1 and offering 3 of the sample data show it.
\<close>

theorem enroll_twice_counterexample:
  "co_OfferingID (CourseOffering (db sample_conn) ! 2) = 3 \<and>
   co_CurrentEnrollment (CourseOffering (db sample_conn) ! 2) <
     co_MaxStudents (CourseOffering (db sample_conn) ! 2) \<and>
   fst (enroll_student sample_conn 1 3) = Inr 2 \<and>
   fst (enroll_student (snd (enroll_student sample_conn 1 3)) 1 3) =
     Inl ''Enrollment failed: Course offering is full'' \<and>
   fst (enroll_student (snd (enroll_student sample_conn 1 3)) 1 3) \<noteq>
     Inl ''Enrollment failed: Student is already enrolled in this course''"
  by (simp add: enroll_student_def enroll_student_try_def engine_defs Let_def next_rowid_def
      enrollment_insert_trigger_def sample_defs)

text \<open>
  Claim C3, amended. For an existing student who is not yet enrolled in an offering with a
  free seat, on a connection with no open transaction: the first call succeeds; the second
  call fails and changes nothing, with the duplicate error (the source's message
  \<open>Student is already enrolled in this course\<close>) when the offering had at least two free
  seats, and with the capacity error when it had exactly one; afterwards exactly one
  enrollment row for the pair exists.
\<close>

theorem enroll_twice:
  assumes "saved c = None"
    and "find (\<lambda>co. co_OfferingID co = offering_id) (CourseOffering (db c)) = Some offering"
    and "co_CurrentEnrollment offering < co_MaxStudents offering"
    and "find (\<lambda>s. s_StudentID s = student_id) (Student (db c)) \<noteq> None"
    and "find (\<lambda>e. e_StudentID e = student_id \<and> e_OfferingID e = offering_id)
           (Enrollment (db c)) = None"
  shows "\<exists>enrollment_id c1.
           enroll_student c student_id offering_id = (Inr enrollment_id, c1) \<and>
           enroll_student c1 student_id offering_id =
             (Inl (if co_CurrentEnrollment offering + 1 < co_MaxStudents offering
                   then ''Enrollment failed: Student is already enrolled in this course''
                   else ''Enrollment failed: Course offering is full''), c1) \<and>
           length (filter (\<lambda>e. e_StudentID e = student_id \<and> e_OfferingID e = offering_id)
                     (Enrollment (db c1))) = 1"
proof -
  let ?pair = "\<lambda>e. e_StudentID e = student_id \<and> e_OfferingID e = offering_id"
  let ?row = "\<lparr>e_EnrollmentID = next_rowid (Enrollment (db c)), e_StudentID = student_id,
               e_OfferingID = offering_id, e_Grade = None, e_Status = ''Enrolled''\<rparr>"
  let ?c1 = "c\<lparr>db := (db c)\<lparr>CourseOffering :=
                 enrollment_insert_trigger offering_id (CourseOffering (db c)),
               Enrollment := Enrollment (db c) @ [?row]\<rparr>, writes := Suc (writes c)\<rparr>"
  from assms have first: "enroll_student c student_id offering_id =
      (Inr (next_rowid (Enrollment (db c))), ?c1)"
    by (auto simp: enroll_student_def enroll_student_try_def engine_defs Let_def)
  from assms(5) have none: "filter ?pair (Enrollment (db c)) = []"
    by (simp add: find_None_iff filter_empty_conv)
  then have one: "length (filter ?pair (Enrollment (db ?c1))) = 1"
    by simp
  have dup: "find ?pair (Enrollment (db c) @ [?row]) \<noteq> None"
  proof -
    have "?row \<in> set (Enrollment (db c) @ [?row])" and "?pair ?row"
      by simp_all
    then show ?thesis unfolding find_None_iff by blast
  qed
  from assms(1,2) dup have second: "enroll_student ?c1 student_id offering_id =
      (Inl (if co_CurrentEnrollment offering + 1 < co_MaxStudents offering
            then ''Enrollment failed: Student is already enrolled in this course''
            else ''Enrollment failed: Course offering is full''), ?c1)"
    by (simp add: enroll_student_def enroll_student_try_def except_rollback_def
        begin_transaction_def rollback_def find_trigger)
  from first second one show ?thesis by blast
qed

theorem enroll_twice_witness:
  "fst (enroll_student sample_conn 1 1) = Inr 2 \<and>
   fst (enroll_student (snd (enroll_student sample_conn 1 1)) 1 1) =
     Inl ''Enrollment failed: Student is already enrolled in this course'' \<and>
   length (filter (\<lambda>e. e_StudentID e = 1 \<and> e_OfferingID e = 1)
     (Enrollment (db (snd (enroll_student sample_conn 1 1))))) = 1"
proof -
  have ok: "fst (enroll_student sample_conn 1 1) = Inr 2"
    by (simp add: enroll_student_def enroll_student_try_def engine_defs Let_def next_rowid_def
        sample_defs)
  from enroll_twice [of sample_conn 1
      "\<lparr>co_OfferingID = 1, co_CourseID = 1, co_Semester = ''Spring'', co_Year = 2024,
        co_MaxStudents = 2, co_CurrentEnrollment = 0\<rparr>" 1]
  obtain enrollment_id c1 where
    a: "enroll_student sample_conn 1 1 = (Inr enrollment_id, c1)" and
    b: "enroll_student c1 1 1 =
          (Inl ''Enrollment failed: Student is already enrolled in this course'', c1)" and
    n: "length (filter (\<lambda>e. e_StudentID e = 1 \<and> e_OfferingID e = 1) (Enrollment (db c1))) = 1"
    by (auto simp: sample_defs)
  from a b n ok show ?thesis by simp
qed

text \<open>
  Claim C4. For every enrollment identifier and every grade outside
  \<open>{A, B, C, D, F, P, W}\<close>, \<open>update_grade\<close> fails with the invalid-grade error (the
  source's message \<open>Invalid grade. Must be one of: A, B, C, D, F, P, W\<close>) and hands back
  the connection as it was: the database is the same and no writing statement was sent.
\<close>

theorem update_grade_invalid:
  assumes "grade \<notin> {''A'', ''B'', ''C'', ''D'', ''F'', ''P'', ''W''}"
    and "saved c = None"
  shows "update_grade c enrollment_id grade =
           (Inl ''Grade update failed: Invalid grade. Must be one of: A, B, C, D, F, P, W'', c)"
  using assms
  by (simp add: update_grade_def update_grade_try_def valid_grades_def except_rollback_def
      rollback_def)

theorem update_grade_invalid_witness:
  "update_grade sample_conn 1 ''Z'' =
     (Inl ''Grade update failed: Invalid grade. Must be one of: A, B, C, D, F, P, W'', sample_conn)"
  using update_grade_invalid [of "''Z''" sample_conn 1]
  by (simp add: sample_defs)

text \<open>
  Claim C5. \<open>withdraw_from_course\<close> rewrites exactly the rows with the given identifier
  that are in status \<open>Enrolled\<close>, to status \<open>Withdrawn\<close> and grade \<open>W\<close>. When no
  row matches, whether the identifier is absent or the enrollment has another status, it
  fails with one and the same error (the source's message
  \<open>Enrollment not found or already completed\<close>) and the database is the one before the
  call, so no grade and no status has changed.
\<close>

theorem withdraw_from_course_conditional:
  assumes "saved c = None"
    and "withdraw_from_course c enrollment_id = (r, c')"
  shows "saved c' = None \<and>
    (if \<exists>e \<in> set (Enrollment (db c)). e_EnrollmentID e = enrollment_id \<and> e_Status e = ''Enrolled''
     then r = Inr True \<and>
          Enrollment (db c') =
            map (\<lambda>e. if e_EnrollmentID e = enrollment_id \<and> e_Status e = ''Enrolled''
                      then e\<lparr>e_Status := ''Withdrawn'', e_Grade := Some ''W''\<rparr> else e)
              (Enrollment (db c))
     else r = Inl ''Withdrawal failed: Enrollment not found or already completed'' \<and>
          db c' = db c)"
proof (cases "filter (\<lambda>e. e_EnrollmentID e = enrollment_id \<and> e_Status e = ''Enrolled'')
          (Enrollment (db c)) = []")
  case True
  with assms(2) have "r = Inl ''Withdrawal failed: Enrollment not found or already completed''"
    and "c' = c\<lparr>writes := Suc (writes c)\<rparr>"
    by (simp_all add: withdraw_from_course_result [OF assms(1)])
  with True assms(1) show ?thesis
    by (auto simp: filter_empty_conv)
next
  case False
  with assms(2) have "r = Inr True"
    and "c' = c\<lparr>db := (db c)\<lparr>Enrollment :=
                 map (\<lambda>e. if e_EnrollmentID e = enrollment_id \<and> e_Status e = ''Enrolled''
                           then e\<lparr>e_Status := ''Withdrawn'', e_Grade := Some ''W''\<rparr> else e)
                   (Enrollment (db c))\<rparr>,
              writes := Suc (writes c)\<rparr>"
    by (simp_all add: withdraw_from_course_result [OF assms(1)])
  with False assms(1) show ?thesis
    by (auto simp: filter_empty_conv)
qed

theorem withdraw_from_course_conditional_witness:
  "fst (withdraw_from_course sample_conn 1) = Inr True \<and>
   Enrollment (db (snd (withdraw_from_course sample_conn 1))) =
     [\<lparr>e_EnrollmentID = 1, e_StudentID = 2, e_OfferingID = 2, e_Grade = Some ''W'',
       e_Status = ''Withdrawn''\<rparr>] \<and>
   fst (withdraw_from_course (snd (withdraw_from_course sample_conn 1)) 1) =
     Inl ''Withdrawal failed: Enrollment not found or already completed'' \<and>
   db (snd (withdraw_from_course (snd (withdraw_from_course sample_conn 1)) 1)) =
     db (snd (withdraw_from_course sample_conn 1))"
proof -
  let ?c1 = "snd (withdraw_from_course sample_conn 1)"
  have s: "saved sample_conn = None" by (simp add: sample_defs)
  have first: "saved ?c1 = None \<and> fst (withdraw_from_course sample_conn 1) = Inr True \<and>
     Enrollment (db ?c1) =
       [\<lparr>e_EnrollmentID = 1, e_StudentID = 2, e_OfferingID = 2, e_Grade = Some ''W'',
         e_Status = ''Withdrawn''\<rparr>]"
    using withdraw_from_course_conditional [OF s, of 1 "fst (withdraw_from_course sample_conn 1)" ?c1]
    by (simp add: sample_defs)
  then have s1: "saved ?c1 = None" by simp
  have second: "fst (withdraw_from_course ?c1 1) =
       Inl ''Withdrawal failed: Enrollment not found or already completed'' \<and>
     db (snd (withdraw_from_course ?c1 1)) = db ?c1"
    using withdraw_from_course_conditional [OF s1, of 1 "fst (withdraw_from_course ?c1 1)"
        "snd (withdraw_from_course ?c1 1)"] first
    by simp
  from first second show ?thesis by simp
qed

text \<open>
  Claim C6. A successful \<open>withdraw_from_course\<close> leaves the table \<open>CourseOffering\<close> as
  it was, every field of every offering and so every \<open>CurrentEnrollment\<close> counter, and
  the tables \<open>Student\<close>, \<open>Program\<close> and \<open>Course\<close> too. In \<open>Enrollment\<close> the
  rows stay in place, each keeps its identifier, student and offering, and a row that is
  not the matching one (another identifier, or a status other than \<open>Enrolled\<close>) is
  unchanged.
\<close>

theorem withdraw_from_course_frame:
  assumes "saved c = None"
    and "withdraw_from_course c enrollment_id = (Inr b, c')"
  shows "CourseOffering (db c') = CourseOffering (db c) \<and>
    Student (db c') = Student (db c) \<and> Program (db c') = Program (db c) \<and>
    Course (db c') = Course (db c) \<and>
    list_all2 (\<lambda>e e'. e_EnrollmentID e' = e_EnrollmentID e \<and> e_StudentID e' = e_StudentID e \<and>
                 e_OfferingID e' = e_OfferingID e \<and>
                 (e_EnrollmentID e \<noteq> enrollment_id \<or> e_Status e \<noteq> ''Enrolled'' \<longrightarrow> e' = e))
      (Enrollment (db c)) (Enrollment (db c'))"
proof -
  from assms(2) have "c' = c\<lparr>db := (db c)\<lparr>Enrollment :=
                 map (\<lambda>e. if e_EnrollmentID e = enrollment_id \<and> e_Status e = ''Enrolled''
                           then e\<lparr>e_Status := ''Withdrawn'', e_Grade := Some ''W''\<rparr> else e)
                   (Enrollment (db c))\<rparr>,
              writes := Suc (writes c)\<rparr>"
    by (simp add: withdraw_from_course_result [OF assms(1)] split: if_splits)
  then show ?thesis
    by (simp add: list_all2_map2 list_all2_same)
qed

theorem withdraw_from_course_frame_witness:
  "fst (withdraw_from_course sample_conn 1) = Inr True \<and>
   CourseOffering (db (snd (withdraw_from_course sample_conn 1))) = CourseOffering sample_db"
proof -
  have s: "saved sample_conn = None" by (simp add: sample_defs)
  have ok: "fst (withdraw_from_course sample_conn 1) = Inr True"
    by (simp add: withdraw_from_course_def withdraw_from_course_try_def engine_defs Let_def
        sample_defs)
  then have e: "withdraw_from_course sample_conn 1 =
      (Inr True, snd (withdraw_from_course sample_conn 1))"
    by (metis prod.collapse)
  from withdraw_from_course_frame [OF s e] ok show ?thesis
    by (simp add: sample_conn_def)
qed

text \<open>
  Claim C7. For a grade in \<open>{A, B, C, D, F, P, W}\<close>, \<open>update_grade\<close> succeeds exactly
  when a row with the given identifier exists. It then sets the grade of every such row to
  the given grade and its status to \<open>Completed\<close>, whatever the status was, and changes
  nothing else. When no row has the identifier it fails with the not-found error (the
  source's message \<open>Enrollment not found\<close>) and the database is the one before the call.
\<close>

theorem update_grade_valid:
  assumes "grade \<in> {''A'', ''B'', ''C'', ''D'', ''F'', ''P'', ''W''}"
    and "saved c = None"
    and "update_grade c enrollment_id grade = (r, c')"
  shows "saved c' = None \<and>
    (if \<exists>e \<in> set (Enrollment (db c)). e_EnrollmentID e = enrollment_id
     then r = Inr True \<and>
          Enrollment (db c') =
            map (\<lambda>e. if e_EnrollmentID e = enrollment_id
                      then e\<lparr>e_Grade := Some grade, e_Status := ''Completed''\<rparr> else e)
              (Enrollment (db c)) \<and>
          CourseOffering (db c') = CourseOffering (db c) \<and> Student (db c') = Student (db c) \<and>
          Program (db c') = Program (db c) \<and> Course (db c') = Course (db c)
     else r = Inl ''Grade update failed: Enrollment not found'' \<and> db c' = db c)"
proof -
  from assms(1) have v: "grade \<in> set valid_grades"
    by (simp add: valid_grades_def)
  show ?thesis
  proof (cases "filter (\<lambda>e. e_EnrollmentID e = enrollment_id) (Enrollment (db c)) = []")
    case True
    with assms(3) have "r = Inl ''Grade update failed: Enrollment not found''"
      and "c' = c\<lparr>writes := Suc (writes c)\<rparr>"
      by (simp_all add: update_grade_result [OF assms(2) v])
    with True assms(2) show ?thesis
      by (auto simp: filter_empty_conv)
  next
    case False
    with assms(3) have "r = Inr True"
      and "c' = c\<lparr>db := (db c)\<lparr>Enrollment :=
                 map (\<lambda>e. if e_EnrollmentID e = enrollment_id
                           then e\<lparr>e_Grade := Some grade, e_Status := ''Completed''\<rparr> else e)
                   (Enrollment (db c))\<rparr>,
              writes := Suc (writes c)\<rparr>"
      by (simp_all add: update_grade_result [OF assms(2) v])
    with False assms(2) show ?thesis
      by (auto simp: filter_empty_conv)
  qed
qed

theorem update_grade_valid_witness:
  "Enrollment (db (snd (update_grade (snd (withdraw_from_course sample_conn 1)) 1 ''P''))) =
     [\<lparr>e_EnrollmentID = 1, e_StudentID = 2, e_OfferingID = 2, e_Grade = Some ''P'',
       e_Status = ''Completed''\<rparr>] \<and>
   fst (update_grade sample_conn 5 ''A'') = Inl ''Grade update failed: Enrollment not found'' \<and>
   db (snd (update_grade sample_conn 5 ''A'')) = sample_db"
proof -
  let ?c1 = "snd (withdraw_from_course sample_conn 1)"
  have c1: "saved ?c1 = None \<and> Enrollment (db ?c1) =
       [\<lparr>e_EnrollmentID = 1, e_StudentID = 2, e_OfferingID = 2, e_Grade = Some ''W'',
         e_Status = ''Withdrawn''\<rparr>]"
    by (simp add: withdraw_from_course_def withdraw_from_course_try_def engine_defs Let_def
        sample_defs)
  then have s1: "saved ?c1 = None" by simp
  have s: "saved sample_conn = None" by (simp add: sample_defs)
  have a: "Enrollment (db (snd (update_grade ?c1 1 ''P''))) =
     [\<lparr>e_EnrollmentID = 1, e_StudentID = 2, e_OfferingID = 2, e_Grade = Some ''P'',
       e_Status = ''Completed''\<rparr>]"
    using update_grade_valid [OF _ s1, of "''P''" 1 "fst (update_grade ?c1 1 ''P'')"
        "snd (update_grade ?c1 1 ''P'')"] c1
    by simp
  have b: "fst (update_grade sample_conn 5 ''A'') = Inl ''Grade update failed: Enrollment not found'' \<and>
     db (snd (update_grade sample_conn 5 ''A'')) = db sample_conn"
    using update_grade_valid [OF _ s, of "''A''" 5 "fst (update_grade sample_conn 5 ''A'')"
        "snd (update_grade sample_conn 5 ''A'')"]
    by (simp add: sample_defs)
  from a b show ?thesis by (simp add: sample_conn_def)
qed

section \<open>Properties of the aggregates\<close>

lemma join_none:
  "k \<notin> key ` set xs \<Longrightarrow> concat (map (\<lambda>x. if k = key x then g x else []) xs) = []"
  by (induction xs) auto

lemma join_unique:
  assumes "distinct (map key xs)" and "y \<in> set xs"
  shows "concat (map (\<lambda>x. if key y = key x then g x else []) xs) = g y"
  using assms
proof (induction xs)
  case Nil
  then show ?case by simp
next
  case (Cons x xs)
  show ?case
  proof (cases "y = x")
    case True
    with Cons.prems have "key y \<notin> key ` set xs" by simp
    then have "concat (map (\<lambda>x. if key y = key x then g x else []) xs) = []"
      by (rule join_none)
    with True show ?thesis by simp
  next
    case False
    with Cons.prems have y: "y \<in> set xs" and "key x \<notin> key ` set xs" by auto
    then have "key y \<noteq> key x" by (metis imageI)
    with Cons.IH [OF _ y] Cons.prems show ?thesis by simp
  qed
qed

lemma find_unique:
  assumes "distinct (map key xs)" and "y \<in> set xs"
  shows "find (\<lambda>x. key x = key y) xs = Some y"
  using assms by (induction xs) (auto simp: image_iff)

lemma non_null_Some [simp]: "non_null (map (\<lambda>x. Some (f x)) xs) = map f xs"
  by (induction xs) auto

lemma calculate_gpa_rows_one:
  assumes "integrity d" and "e \<in> set (Enrollment d)"
  shows "concat (map (\<lambda>co. if e_OfferingID e = co_OfferingID co
            then concat (map (\<lambda>c. if co_CourseID co = c_CourseID c
                   then if Q then [(e, co, c)] else [] else []) (Course d))
            else []) (CourseOffering d)) =
         (if Q then [(e, the (find (\<lambda>co. co_OfferingID co = e_OfferingID e) (CourseOffering d)),
                      the (find (\<lambda>c. c_CourseID c = co_CourseID (the (find (\<lambda>co. co_OfferingID co = e_OfferingID e) (CourseOffering d)))) (Course d)))] else [])"
proof -
  from assms obtain co where co: "co \<in> set (CourseOffering d)"
    and ko: "co_OfferingID co = e_OfferingID e"
    by (auto simp: integrity_def)
  from assms co obtain c where c: "c \<in> set (Course d)" and kc: "c_CourseID c = co_CourseID co"
    by (auto simp: integrity_def)
  from assms have dco: "distinct (map co_OfferingID (CourseOffering d))"
    and dc: "distinct (map c_CourseID (Course d))"
    by (simp_all add: integrity_def)
  have fco: "find (\<lambda>co. co_OfferingID co = e_OfferingID e) (CourseOffering d) = Some co"
    using find_unique [OF dco co] ko by simp
  have fc: "find (\<lambda>c. c_CourseID c = co_CourseID co) (Course d) = Some c"
    using find_unique [OF dc c] kc by simp
  have "concat (map (\<lambda>co. if e_OfferingID e = co_OfferingID co
            then concat (map (\<lambda>c. if co_CourseID co = c_CourseID c
                   then if Q then [(e, co, c)] else [] else []) (Course d))
            else []) (CourseOffering d)) =
        concat (map (\<lambda>c. if co_CourseID co = c_CourseID c
                   then if Q then [(e, co, c)] else [] else []) (Course d))"
    using join_unique [OF dco co, of "\<lambda>co. concat (map (\<lambda>c. if co_CourseID co = c_CourseID c
                   then if Q then [(e, co, c)] else [] else []) (Course d))"] ko
    by simp
  also have "\<dots> = (if Q then [(e, co, c)] else [])"
    using join_unique [OF dc c, of "\<lambda>c. if Q then [(e, co, c)] else []"] kc
    by simp
  finally show ?thesis by (simp add: fco fc)
qed

lemma calculate_gpa_rows_credits:
  assumes "integrity d"
  shows "map (\<lambda>(e, co, c). (e, c_Credits c)) (calculate_gpa_rows d student_id) =
         map (\<lambda>e. (e, credits_of d e)) (graded_enrollments d student_id)"
proof -
  have "set es \<subseteq> set (Enrollment d) \<Longrightarrow>
     map (\<lambda>(e, co, c). (e, c_Credits c))
       (concat (map (\<lambda>e. concat (map (\<lambda>co. if e_OfferingID e = co_OfferingID co
            then concat (map (\<lambda>c. if co_CourseID co = c_CourseID c
                   then if e_StudentID e = student_id \<and> e_Grade e \<noteq> None then [(e, co, c)] else [] else [])
                   (Course d))
            else []) (CourseOffering d))) es)) =
     map (\<lambda>e. (e, credits_of d e))
       (filter (\<lambda>e. e_StudentID e = student_id \<and> e_Grade e \<noteq> None) es)" for es
  proof (induction es)
    case Nil
    then show ?case by simp
  next
    case (Cons e es)
    then have e: "e \<in> set (Enrollment d)" and es: "set es \<subseteq> set (Enrollment d)" by auto
    from assms e obtain co where co: "co \<in> set (CourseOffering d)"
      and ko: "co_OfferingID co = e_OfferingID e"
      by (auto simp: integrity_def)
    from assms co obtain c where c: "c \<in> set (Course d)" and kc: "c_CourseID c = co_CourseID co"
      by (auto simp: integrity_def)
    from assms have dco: "distinct (map co_OfferingID (CourseOffering d))"
      and dc: "distinct (map c_CourseID (Course d))"
      by (simp_all add: integrity_def)
    have fco: "find (\<lambda>co. co_OfferingID co = e_OfferingID e) (CourseOffering d) = Some co"
      using find_unique [OF dco co] ko by simp
    have fc: "find (\<lambda>c. c_CourseID c = co_CourseID co) (Course d) = Some c"
      using find_unique [OF dc c] kc by simp
    have cr: "credits_of d e = c_Credits c"
      by (simp add: credits_of_def fco fc)
    show ?case
      using Cons.IH [OF es] calculate_gpa_rows_one [OF assms e] cr
      by (simp add: fco fc)
  qed
  then show ?thesis
    by (simp add: calculate_gpa_rows_def graded_enrollments_def)
qed


lemma grade_points_table:
  "grade_points g = Option.bind g (map_of grade_point_table)"
  by (cases g) (simp_all add: grade_points_def grade_point_table_def)

lemma non_null_map_filter: "non_null (map f xs) = List.map_filter f xs"
proof (induction xs)
  case Nil
  then show ?case by simp
next
  case (Cons x xs)
  then show ?case by (cases "f x") simp_all
qed

lemma calculate_gpa_rows_fst:
  assumes "integrity d"
  shows "map (\<lambda>(e, co, c). f e) (calculate_gpa_rows d student_id) =
         map f (graded_enrollments d student_id)"
proof -
  have "map (\<lambda>(e, co, c). f e) (calculate_gpa_rows d student_id) =
        map (\<lambda>(e, n). f e) (map (\<lambda>(e, co, c). (e, c_Credits c)) (calculate_gpa_rows d student_id))"
    by (simp add: case_prod_unfold)
  also have "\<dots> = map f (graded_enrollments d student_id)"
    by (simp add: calculate_gpa_rows_credits [OF assms])
  finally show ?thesis .
qed

lemma calculate_gpa_rows_snd:
  assumes "integrity d"
  shows "map (\<lambda>(e, co, c). c_Credits c) (calculate_gpa_rows d student_id) =
         map (credits_of d) (graded_enrollments d student_id)"
proof -
  have "map (\<lambda>(e, co, c). c_Credits c) (calculate_gpa_rows d student_id) =
        map snd (map (\<lambda>(e, co, c). (e, c_Credits c)) (calculate_gpa_rows d student_id))"
    by (simp add: case_prod_unfold)
  also have "\<dots> = map (credits_of d) (graded_enrollments d student_id)"
    by (simp add: calculate_gpa_rows_credits [OF assms] o_def)
  finally show ?thesis .
qed

lemma rounded_gpa_sql:
  "rounded_gpa rnd d student_id =
     sql_round rnd (sql_avg (map (\<lambda>e. grade_points (e_Grade e)) (graded_enrollments d student_id))) 2"
  by (simp add: rounded_gpa_def mapped_points_def sql_round_def sql_avg_def Let_def
      non_null_map_filter grade_points_table)

lemma half_floor:
  fixes x :: rat
  shows "\<bar>of_int \<lfloor>x + 1 / 2\<rfloor> - x\<bar> \<le> 1 / 2"
proof -
  have "of_int \<lfloor>x + 1 / 2\<rfloor> \<le> x + 1 / 2" and "x + 1 / 2 < of_int \<lfloor>x + 1 / 2\<rfloor> + 1"
    by linarith+
  then show ?thesis by linarith
qed

lemma round_to_near:
  "\<bar>round_to n v - v\<bar> \<le> 1 / (2 * 10 ^ n)"
proof -
  let ?p = "10 ^ n :: rat"
  have p: "0 < ?p" by simp
  have scale: "\<bar>of_int k / ?p - w\<bar> \<le> 1 / (2 * ?p)" if "\<bar>of_int k - w * ?p\<bar> \<le> 1 / 2"
    for k :: int and w :: rat
  proof -
    have "\<bar>of_int k / ?p - w\<bar> = \<bar>of_int k - w * ?p\<bar> / ?p"
      using p by (simp add: abs_divide field_simps flip: abs_mult)
    also have "\<dots> \<le> (1 / 2) / ?p"
      using that p by (intro divide_right_mono) simp_all
    finally show ?thesis by simp
  qed
  show ?thesis
  proof (cases "v \<ge> 0")
    case True
    with scale [OF half_floor [of "v * ?p"]] show ?thesis
      by (simp add: round_to_def)
  next
    case False
    have "\<bar>- (of_int \<lfloor>- v * ?p + 1 / 2\<rfloor> / ?p) - v\<bar> = \<bar>of_int \<lfloor>- v * ?p + 1 / 2\<rfloor> / ?p - (- v)\<bar>"
      by (simp add: abs_minus_commute)
    with scale [OF half_floor [of "- v * ?p"]] False show ?thesis
      by (simp add: round_to_def)
  qed
qed

lemma rounds_to_decimals_round_to: "rounds_to_decimals round_to"
proof -
  have "\<exists>k::int. round_to n v = of_int k / 10 ^ n" for n v
  proof (cases "v \<ge> 0")
    case True
    then show ?thesis by (auto simp: round_to_def)
  next
    case False
    then have "round_to n v = of_int (- \<lfloor>- v * 10 ^ n + 1 / 2\<rfloor>) / 10 ^ n"
      by (simp add: round_to_def)
    then show ?thesis by blast
  qed
  then show ?thesis
    by (simp add: rounds_to_decimals_def round_to_near)
qed

lemma floor_numeral_div:
  "\<lfloor>numeral a / numeral b :: rat\<rfloor> = numeral a div numeral b"
  using floor_divide_of_int_eq [of "numeral a" "numeral b", where ?'a = rat] by simp

lemma integrity_report_db: "integrity report_db"
  by (simp add: integrity_def report_db_def)

text \<open>
  Claim C8. In a database that satisfies the constraints of the schema,
  \<open>calculate_gpa\<close> counts the enrollments of the student that have a grade, sums the
  credits of their courses (\<open>NULL\<close> when there is none), and returns as GPA the store's
  \<open>ROUND\<close> to two places of the unweighted average of the points of the grades A, B, C,
  D and F (4, 3, 2, 1, 0); any other grade is left out of the average, not counted as zero.
  The GPA is \<open>NULL\<close>, not zero, when no grade has points, in particular for a student
  without graded enrollments; the function returns a row in every case. Whenever
  \<open>ROUND\<close> rounds to decimal places, the GPA is a whole number of hundredths and lies
  within half a hundredth of that average.
\<close>

theorem calculate_gpa_correct:
  assumes "integrity d"
  shows "g_CoursesCompleted (calculate_gpa rnd d student_id) =
           int (length (graded_enrollments d student_id)) \<and>
         g_TotalCredits (calculate_gpa rnd d student_id) =
           (if graded_enrollments d student_id = [] then None
            else Some (\<Sum>e\<leftarrow>graded_enrollments d student_id. credits_of d e)) \<and>
         g_GPA (calculate_gpa rnd d student_id) =
           (if mapped_points d student_id = [] then None
            else Some (rnd 2 (sum_list (mapped_points d student_id) /
                              of_nat (length (mapped_points d student_id))))) \<and>
         (graded_enrollments d student_id = [] \<longrightarrow>
            g_GPA (calculate_gpa rnd d student_id) = None) \<and>
         (rounds_to_decimals rnd \<longrightarrow>
            (\<forall>g. g_GPA (calculate_gpa rnd d student_id) = Some g \<longrightarrow>
               (\<exists>k::int. g = of_int k / 100) \<and>
               \<bar>g - sum_list (mapped_points d student_id) /
                      of_nat (length (mapped_points d student_id))\<bar> \<le> 1 / 200))"
proof -
  let ?rows = "calculate_gpa_rows d student_id"
  let ?graded = "graded_enrollments d student_id"
  let ?avg = "sum_list (mapped_points d student_id) / of_nat (length (mapped_points d student_id))"
  have ids: "map (\<lambda>(e, co, c). Some (e_EnrollmentID e)) ?rows = map (\<lambda>e. Some (e_EnrollmentID e)) ?graded"
    by (rule calculate_gpa_rows_fst [OF assms])
  have pts: "map (\<lambda>(e, co, c). grade_points (e_Grade e)) ?rows =
             map (\<lambda>e. grade_points (e_Grade e)) ?graded"
    by (rule calculate_gpa_rows_fst [OF assms])
  have "map (\<lambda>(e, co, c). Some (c_Credits c)) ?rows =
        map Some (map (\<lambda>(e, co, c). c_Credits c) ?rows)"
    by (simp add: case_prod_unfold)
  then have crs: "map (\<lambda>(e, co, c). Some (c_Credits c)) ?rows =
             map (\<lambda>e. Some (credits_of d e)) ?graded"
    by (simp add: calculate_gpa_rows_snd [OF assms])
  have count: "g_CoursesCompleted (calculate_gpa rnd d student_id) = int (length ?graded)"
    by (simp add: calculate_gpa_def Let_def ids sql_count_def)
  have total: "g_TotalCredits (calculate_gpa rnd d student_id) =
      (if ?graded = [] then None else Some (\<Sum>e\<leftarrow>?graded. credits_of d e))"
    by (simp add: calculate_gpa_def Let_def crs sql_sum_def)
  have "g_GPA (calculate_gpa rnd d student_id) = rounded_gpa rnd d student_id"
    by (simp add: calculate_gpa_def Let_def pts rounded_gpa_sql)
  then have gpa: "g_GPA (calculate_gpa rnd d student_id) =
      (if mapped_points d student_id = [] then None else Some (rnd 2 ?avg))"
    by (simp add: rounded_gpa_def Let_def)
  have "?graded = [] \<longrightarrow> mapped_points d student_id = []"
    by (simp add: mapped_points_def map_filter_simps)
  with gpa have none: "?graded = [] \<longrightarrow> g_GPA (calculate_gpa rnd d student_id) = None"
    by simp
  have near: "rounds_to_decimals rnd \<longrightarrow>
      (\<forall>g. g_GPA (calculate_gpa rnd d student_id) = Some g \<longrightarrow>
         (\<exists>k::int. g = of_int k / 100) \<and> \<bar>g - ?avg\<bar> \<le> 1 / 200)"
  proof (intro impI allI)
    fix g assume r: "rounds_to_decimals rnd"
      and g: "g_GPA (calculate_gpa rnd d student_id) = Some g"
    from g gpa have "g = rnd 2 ?avg"
      by (simp split: if_splits)
    moreover from r have "(\<exists>k::int. rnd 2 ?avg = of_int k / 10 ^ 2) \<and>
        \<bar>rnd 2 ?avg - ?avg\<bar> \<le> 1 / (2 * 10 ^ 2)"
      unfolding rounds_to_decimals_def by blast
    ultimately show "(\<exists>k::int. g = of_int k / 100) \<and> \<bar>g - ?avg\<bar> \<le> 1 / 200"
      by simp
  qed
  from count total gpa none near show ?thesis by blast
qed

theorem calculate_gpa_correct_witness:
  "integrity report_db \<and> rounds_to_decimals round_to \<and>
   g_CoursesCompleted (calculate_gpa round_to report_db 2) = 3 \<and>
   g_TotalCredits (calculate_gpa round_to report_db 2) = Some 10 \<and>
   mapped_points report_db 2 = [0, 0, 2] \<and>
   g_GPA (calculate_gpa round_to report_db 2) = Some (67 / 100) \<and>
   \<bar>67 / 100 - sum_list (mapped_points report_db 2) /
                  of_nat (length (mapped_points report_db 2))\<bar> \<le> (1 / 200 :: rat) \<and>
   g_GPA (calculate_gpa round_to report_db 1) = Some 3 \<and>
   g_CoursesCompleted (calculate_gpa round_to report_db 5) = 2 \<and>
   g_GPA (calculate_gpa round_to report_db 5) = None \<and>
   g_CoursesCompleted (calculate_gpa round_to report_db 3) = 0 \<and>
   g_TotalCredits (calculate_gpa round_to report_db 3) = None \<and>
   g_GPA (calculate_gpa round_to report_db 3) = None"
proof -
  have n2: "int (length (graded_enrollments report_db 2)) = 3"
    and e2: "graded_enrollments report_db 2 \<noteq> []"
    and c2: "(\<Sum>e\<leftarrow>graded_enrollments report_db 2. credits_of report_db e) = 10"
    and p2: "mapped_points report_db 2 = [0, 0, 2]"
    and p1: "mapped_points report_db 1 = [4, 3, 2]"
    and n5: "int (length (graded_enrollments report_db 5)) = 2"
    and p5: "mapped_points report_db 5 = []"
    and e3: "graded_enrollments report_db 3 = []"
    by (simp_all add: mapped_points_def grade_point_table_def credits_of_def
        graded_enrollments_def map_filter_simps report_db_def)
  have r2: "round_to 2 (2 / 3) = 67 / 100" and r1: "round_to 2 3 = 3"
    by (simp_all add: round_to_def floor_numeral_div)
  note gpa = calculate_gpa_correct [OF integrity_report_db, where rnd = round_to]
  from gpa [of 2]
  have "g_CoursesCompleted (calculate_gpa round_to report_db 2) =
          int (length (graded_enrollments report_db 2))"
    and "g_TotalCredits (calculate_gpa round_to report_db 2) =
          (if graded_enrollments report_db 2 = [] then None
           else Some (\<Sum>e\<leftarrow>graded_enrollments report_db 2. credits_of report_db e))"
    and "g_GPA (calculate_gpa round_to report_db 2) =
          (if mapped_points report_db 2 = [] then None
           else Some (round_to 2 (sum_list (mapped_points report_db 2) /
                                  of_nat (length (mapped_points report_db 2)))))"
    by blast+
  then have a: "g_CoursesCompleted (calculate_gpa round_to report_db 2) = 3"
    "g_TotalCredits (calculate_gpa round_to report_db 2) = Some 10"
    "g_GPA (calculate_gpa round_to report_db 2) = Some (67 / 100)"
    by (simp_all add: n2 e2 c2 p2 r2)
  from gpa [of 2] rounds_to_decimals_round_to a(3)
  have near: "\<bar>67 / 100 - sum_list (mapped_points report_db 2) /
                  of_nat (length (mapped_points report_db 2))\<bar> \<le> (1 / 200 :: rat)"
    by blast
  from gpa [of 1]
  have "g_GPA (calculate_gpa round_to report_db 1) =
          (if mapped_points report_db 1 = [] then None
           else Some (round_to 2 (sum_list (mapped_points report_db 1) /
                                  of_nat (length (mapped_points report_db 1)))))"
    by blast
  then have b: "g_GPA (calculate_gpa round_to report_db 1) = Some 3"
    by (simp add: p1 r1)
  from gpa [of 5]
  have "g_CoursesCompleted (calculate_gpa round_to report_db 5) =
          int (length (graded_enrollments report_db 5))"
    and "g_GPA (calculate_gpa round_to report_db 5) =
          (if mapped_points report_db 5 = [] then None
           else Some (round_to 2 (sum_list (mapped_points report_db 5) /
                                  of_nat (length (mapped_points report_db 5)))))"
    by blast+
  then have c: "g_CoursesCompleted (calculate_gpa round_to report_db 5) = 2"
    "g_GPA (calculate_gpa round_to report_db 5) = None"
    by (simp_all add: n5 p5)
  from gpa [of 3]
  have "g_CoursesCompleted (calculate_gpa round_to report_db 3) =
          int (length (graded_enrollments report_db 3))"
    and "g_TotalCredits (calculate_gpa round_to report_db 3) =
          (if graded_enrollments report_db 3 = [] then None
           else Some (\<Sum>e\<leftarrow>graded_enrollments report_db 3. credits_of report_db e))"
    and "graded_enrollments report_db 3 = [] \<longrightarrow>
          g_GPA (calculate_gpa round_to report_db 3) = None"
    by blast+
  then have d: "g_CoursesCompleted (calculate_gpa round_to report_db 3) = 0"
    "g_TotalCredits (calculate_gpa round_to report_db 3) = None"
    "g_GPA (calculate_gpa round_to report_db 3) = None"
    by (simp_all add: e3)
  from integrity_report_db rounds_to_decimals_round_to a near p2 b c d show ?thesis
    by blast
qed

lemma concat_if_if:
  "concat (map (\<lambda>e. if A e then if B e then [f e] else [] else []) es) =
     map f (filter (\<lambda>e. A e \<and> B e) es)"
  by (induction es) auto

lemma students_at_risk_rows_eq:
  assumes "integrity d"
  shows "students_at_risk_rows d = concat (map (risk_group d) (Student d))"
proof -
  have "concat (map (\<lambda>p. if s_ProgramID s = p_ProgramID p
            then concat (map (\<lambda>e. if s_StudentID s = e_StudentID e
                   then if e_Grade e \<noteq> None \<and> s_Status s = ''Active'' then [(s, p, e)] else []
                   else []) (Enrollment d))
            else []) (Program d)) = risk_group d s"
    if s: "s \<in> set (Student d)" for s
  proof -
    from assms s obtain p where p: "p \<in> set (Program d)" and kp: "p_ProgramID p = s_ProgramID s"
      by (auto simp: integrity_def)
    from assms have dp: "distinct (map p_ProgramID (Program d))"
      by (simp add: integrity_def)
    have fp: "program_of d s = p"
      using find_unique [OF dp p] kp by (simp add: program_of_def)
    have "concat (map (\<lambda>p. if s_ProgramID s = p_ProgramID p
            then concat (map (\<lambda>e. if s_StudentID s = e_StudentID e
                   then if e_Grade e \<noteq> None \<and> s_Status s = ''Active'' then [(s, p, e)] else []
                   else []) (Enrollment d))
            else []) (Program d)) =
          concat (map (\<lambda>e. if s_StudentID s = e_StudentID e
                   then if e_Grade e \<noteq> None \<and> s_Status s = ''Active'' then [(s, p, e)] else []
                   else []) (Enrollment d))"
      using join_unique [OF dp p, of "\<lambda>p. concat (map (\<lambda>e. if s_StudentID s = e_StudentID e
                   then if e_Grade e \<noteq> None \<and> s_Status s = ''Active'' then [(s, p, e)] else []
                   else []) (Enrollment d))"] kp
      by simp
    also have "\<dots> = risk_group d s"
      by (simp add: concat_if_if risk_group_def active_graded_def fp)
    finally show ?thesis .
  qed
  then show ?thesis
    by (simp add: students_at_risk_rows_def cong: map_cong)
qed

lemma risk_key_group:
  "r \<in> set (risk_group d s) \<Longrightarrow> risk_key r = risk_key_of d s"
  by (auto simp: risk_group_def risk_key_def risk_key_of_def)

lemma student_by_id:
  assumes "distinct (map s_StudentID xs)" and "s \<in> set xs" and "s' \<in> set xs"
    and "s_StudentID s = s_StudentID s'"
  shows "s = s'"
  using assms by (meson distinct_map inj_onD)

lemma filter_risk_group:
  assumes "integrity d" and "s \<in> set (Student d)"
  shows "filter (\<lambda>r. risk_key r = risk_key_of d s) (concat (map (risk_group d) (Student d))) =
         risk_group d s"
proof -
  from assms have ds: "distinct (map s_StudentID (Student d))"
    by (simp add: integrity_def)
  have one: "filter (\<lambda>r. risk_key r = risk_key_of d s) (risk_group d s') =
             (if s_StudentID s = s_StudentID s' then risk_group d s' else [])"
    if s': "s' \<in> set (Student d)" for s'
  proof (cases "s_StudentID s = s_StudentID s'")
    case True
    with ds assms(2) s' have "s = s'" by (rule student_by_id)
    then show ?thesis
      by (simp add: risk_key_group cong: filter_cong)
  next
    case False
    then have "risk_key_of d s' \<noteq> risk_key_of d s"
      by (simp add: risk_key_of_def)
    then have "filter (\<lambda>r. risk_key r = risk_key_of d s) (risk_group d s') = []"
      by (auto simp: filter_empty_conv risk_key_group)
    with False show ?thesis by simp
  qed
  have "filter (\<lambda>r. risk_key r = risk_key_of d s) (concat (map (risk_group d) (Student d))) =
        concat (map (\<lambda>s'. filter (\<lambda>r. risk_key r = risk_key_of d s) (risk_group d s')) (Student d))"
    by (simp add: filter_concat o_def)
  also have "\<dots> = concat (map (\<lambda>s'. if s_StudentID s = s_StudentID s' then risk_group d s' else [])
                       (Student d))"
    using one by (simp cong: map_cong)
  also have "\<dots> = risk_group d s"
    by (rule join_unique [OF ds assms(2)])
  finally show ?thesis .
qed

lemma risk_select_group:
  "risk_select rnd (risk_key_of d s, risk_group d s) = risk_row_of rnd d s"
proof -
  have "non_null (map (\<lambda>e. if e_Grade e = Some ''F'' then Some (1::int) else None) es) =
        map (\<lambda>e. 1) (filter (\<lambda>e. e_Grade e = Some ''F'') es)" for es :: "enrollment_row list"
    by (induction es) auto
  then show ?thesis
    by (simp add: risk_select_def risk_key_of_def risk_group_def risk_row_of_def sql_count_def
        o_def)
qed

lemma risk_keys_set:
  "risk_key ` set (concat (map (risk_group d) (Student d))) =
     risk_key_of d ` {s \<in> set (Student d). active_graded d s \<noteq> []}"
proof (intro set_eqI iffI)
  let ?rows = "concat (map (risk_group d) (Student d))"
  fix k assume "k \<in> risk_key ` set ?rows"
  then obtain s r where "s \<in> set (Student d)" and r: "r \<in> set (risk_group d s)"
    and "k = risk_key r"
    by auto
  moreover from r have "active_graded d s \<noteq> []" by (auto simp: risk_group_def)
  ultimately show "k \<in> risk_key_of d ` {s \<in> set (Student d). active_graded d s \<noteq> []}"
    by (auto simp: risk_key_group)
next
  let ?rows = "concat (map (risk_group d) (Student d))"
  fix k assume "k \<in> risk_key_of d ` {s \<in> set (Student d). active_graded d s \<noteq> []}"
  then obtain s where s: "s \<in> set (Student d)" and ne: "active_graded d s \<noteq> []"
    and k: "k = risk_key_of d s"
    by auto
  from ne have "risk_group d s \<noteq> []"
    by (simp add: risk_group_def)
  then have "hd (risk_group d s) \<in> set (risk_group d s)"
    by (rule hd_in_set)
  then obtain r where r: "r \<in> set (risk_group d s)" ..
  with s have "r \<in> set ?rows" by auto
  with r k show "k \<in> risk_key ` set ?rows"
    by (metis imageI risk_key_group)
qed

lemma risk_rows_set:
  assumes "integrity d"
  shows "set (map (risk_select rnd) (group_by risk_key (students_at_risk_rows d))) =
         risk_row_of rnd d ` {s \<in> set (Student d). active_graded d s \<noteq> []}"
proof -
  let ?rows = "concat (map (risk_group d) (Student d))"
  have "set (map (risk_select rnd) (group_by risk_key ?rows)) =
        (\<lambda>k. risk_select rnd (k, filter (\<lambda>r. risk_key r = k) ?rows)) ` (risk_key ` set ?rows)"
    by (simp add: group_by_def image_image)
  also have "\<dots> = (\<lambda>k. risk_select rnd (k, filter (\<lambda>r. risk_key r = k) ?rows)) `
                    (risk_key_of d ` {s \<in> set (Student d). active_graded d s \<noteq> []})"
    by (simp only: risk_keys_set)
  also have "\<dots> = (\<lambda>s. risk_select rnd (risk_key_of d s,
                       filter (\<lambda>r. risk_key r = risk_key_of d s) ?rows)) `
                    {s \<in> set (Student d). active_graded d s \<noteq> []}"
    by (simp only: image_image)
  also have "\<dots> = risk_row_of rnd d ` {s \<in> set (Student d). active_graded d s \<noteq> []}"
    by (rule image_cong) (simp_all add: filter_risk_group [OF assms] risk_select_group)
  finally show ?thesis
    by (simp add: students_at_risk_rows_eq [OF assms])
qed

lemma risk_rows_distinct:
  assumes "integrity d"
  shows "distinct (map r_StudentID (map (risk_select rnd) (group_by risk_key (students_at_risk_rows d))))"
proof -
  let ?rows = "concat (map (risk_group d) (Student d))"
  from assms have ds: "distinct (map s_StudentID (Student d))"
    by (simp add: integrity_def)
  have sel: "r_StudentID (risk_select rnd g) = fst (fst g)" for g
    by (simp add: risk_select_def case_prod_unfold)
  have "inj_on fst (risk_key ` set ?rows)"
  proof (rule inj_onI)
    fix k k' assume "k \<in> risk_key ` set ?rows" and "k' \<in> risk_key ` set ?rows"
      and eq: "fst k = fst k'"
    then obtain s s' where s: "s \<in> set (Student d)" "k = risk_key_of d s"
      and s': "s' \<in> set (Student d)" "k' = risk_key_of d s'"
      unfolding risk_keys_set by auto
    with eq have "s_StudentID s = s_StudentID s'"
      by (simp add: risk_key_of_def)
    with ds s(1) s'(1) have "s = s'" by (rule student_by_id)
    with s s' show "k = k'" by simp
  qed
  then have "distinct (map fst (remdups (map risk_key ?rows)))"
    by (simp add: distinct_map)
  moreover have "map r_StudentID (map (risk_select rnd) (group_by risk_key ?rows)) =
                 map fst (remdups (map risk_key ?rows))"
    by (simp add: group_by_def sel o_def)
  ultimately show ?thesis
    by (simp add: students_at_risk_rows_eq [OF assms])
qed

lemma active_graded_eq:
  "active_graded d s =
     (if s_Status s = ''Active'' then graded_enrollments d (s_StudentID s) else [])"
  by (auto simp: active_graded_def graded_enrollments_def intro: filter_cong)

lemma sql_less_iff: "sql_less x t \<longleftrightarrow> (\<exists>g. x = Some g \<and> g < t)"
  by (cases x) (simp_all add: sql_less_def)

lemma rounded_gpa_no_grades: "graded_enrollments d student_id = [] \<Longrightarrow> rounded_gpa rnd d student_id = None"
  by (simp add: rounded_gpa_def mapped_points_def map_filter_simps)

lemma students_at_risk_set:
  assumes "integrity d"
  shows "set (students_at_risk rnd d t) =
         risk_row_of rnd d ` {s \<in> set (Student d). s_Status s = ''Active'' \<and>
            (\<exists>g. rounded_gpa rnd d (s_StudentID s) = Some g \<and> g < t)}"
proof -
  have "set (students_at_risk rnd d t) =
        {r \<in> risk_row_of rnd d ` {s \<in> set (Student d). active_graded d s \<noteq> []}. sql_less (r_GPA r) t}"
    using risk_rows_set [OF assms] by (simp add: students_at_risk_def)
  also have "\<dots> = risk_row_of rnd d ` {s \<in> set (Student d). s_Status s = ''Active'' \<and>
            (\<exists>g. rounded_gpa rnd d (s_StudentID s) = Some g \<and> g < t)}"
  proof (intro set_eqI iffI)
    fix r assume "r \<in> {r \<in> risk_row_of rnd d ` {s \<in> set (Student d). active_graded d s \<noteq> []}.
                        sql_less (r_GPA r) t}"
    then obtain s where s: "s \<in> set (Student d)" and ne: "active_graded d s \<noteq> []"
      and r: "r = risk_row_of rnd d s" and less: "sql_less (r_GPA r) t"
      by auto
    from ne have act: "s_Status s = ''Active''"
      by (simp add: active_graded_eq split: if_splits)
    with less r have "\<exists>g. rounded_gpa rnd d (s_StudentID s) = Some g \<and> g < t"
      by (simp add: sql_less_iff risk_row_of_def active_graded_eq rounded_gpa_sql)
    with s act r show "r \<in> risk_row_of rnd d ` {s \<in> set (Student d). s_Status s = ''Active'' \<and>
            (\<exists>g. rounded_gpa rnd d (s_StudentID s) = Some g \<and> g < t)}"
      by blast
  next
    fix r assume "r \<in> risk_row_of rnd d ` {s \<in> set (Student d). s_Status s = ''Active'' \<and>
            (\<exists>g. rounded_gpa rnd d (s_StudentID s) = Some g \<and> g < t)}"
    then obtain s g where s: "s \<in> set (Student d)" and act: "s_Status s = ''Active''"
      and g: "rounded_gpa rnd d (s_StudentID s) = Some g" "g < t" and r: "r = risk_row_of rnd d s"
      by auto
    from g(1) have "graded_enrollments d (s_StudentID s) \<noteq> []"
      using rounded_gpa_no_grades by fastforce
    with act have ne: "active_graded d s \<noteq> []"
      by (simp add: active_graded_eq)
    from act g r have "sql_less (r_GPA r) t"
      by (simp add: sql_less_iff risk_row_of_def active_graded_eq rounded_gpa_sql)
    with s ne r show "r \<in> {r \<in> risk_row_of rnd d ` {s \<in> set (Student d). active_graded d s \<noteq> []}.
                        sql_less (r_GPA r) t}"
      by blast
  qed
  finally show ?thesis .
qed

text \<open>
  Claim C9, as stated, compares the average of the mapped grade points with the threshold.
  The query compares the column \<open>GPA\<close>, which is that average rounded to two decimal
  places (\<^verbatim>\<open>HAVING GPA < ?\<close>). Student 2 of the report data is active and has the
  grades F, F, C: the average 2/3 is strictly below the threshold 0.67, the rounded value
  0.67 is not, and the query returns no row. The average is no tie, so the instance
  \<open>round_to\<close> gives what every rounding to two decimal places gives here, SQLite's
  included.
\<close>

theorem students_at_risk_counterexample:
  "s_StudentID (Student report_db ! 1) = 2 \<and>
   s_Status (Student report_db ! 1) = ''Active'' \<and>
   mapped_points report_db 2 = [0, 0, 2] \<and>
   sum_list (mapped_points report_db 2) / of_nat (length (mapped_points report_db 2)) < 67 / 100 \<and>
   students_at_risk round_to report_db (67 / 100) = []"
proof -
  have pts: "mapped_points report_db 2 = [0, 0, 2]"
    by (simp add: mapped_points_def graded_enrollments_def grade_point_table_def map_filter_simps
        report_db_def)
  have rows: "students_at_risk round_to report_db (67 / 100) = []"
    by (simp add: students_at_risk_def students_at_risk_rows_def group_by_def risk_key_def
        risk_select_def sql_less_def sql_round_def sql_avg_def sql_count_def grade_points_def
        round_to_def floor_numeral_div report_db_def)
  show ?thesis
    unfolding pts rows by (simp add: report_db_def)
qed

text \<open>
  Claim C9, amended. In a database that satisfies the constraints of the schema,
  \<open>students_at_risk\<close> returns one row for each student with status \<open>Active\<close> whose
  grade point average, rounded to two decimal places by the store's \<open>ROUND\<close> as in
  \<open>calculate_gpa\<close>, is strictly below the threshold, and no other row. Each row carries
  that rounded average and the number of the student's courses graded F, and the rows are
  in ascending order of the rounded average. A student without graded enrollments has no
  row. This holds whatever \<open>ROUND\<close> does with a tie.
\<close>

theorem students_at_risk_correct:
  assumes "integrity d"
  shows "r_StudentID ` set (students_at_risk rnd d t) =
           {s_StudentID s | s. s \<in> set (Student d) \<and> s_Status s = ''Active'' \<and>
              (\<exists>g. rounded_gpa rnd d (s_StudentID s) = Some g \<and> g < t)} \<and>
         (\<forall>r \<in> set (students_at_risk rnd d t).
            r_GPA r = rounded_gpa rnd d (r_StudentID r) \<and>
            r_FailedCourses r =
              int (length (filter (\<lambda>e. e_Grade e = Some ''F'')
                     (graded_enrollments d (r_StudentID r))))) \<and>
         sorted (map r_GPA (students_at_risk rnd d t)) \<and>
         distinct (map r_StudentID (students_at_risk rnd d t)) \<and>
         (\<forall>s \<in> set (Student d). graded_enrollments d (s_StudentID s) = [] \<longrightarrow>
            s_StudentID s \<notin> r_StudentID ` set (students_at_risk rnd d t))"
proof -
  let ?risk = "{s \<in> set (Student d). s_Status s = ''Active'' \<and>
                 (\<exists>g. rounded_gpa rnd d (s_StudentID s) = Some g \<and> g < t)}"
  note set_eq = students_at_risk_set [OF assms, where rnd = rnd and t = t]
  have id: "r_StudentID (risk_row_of rnd d s) = s_StudentID s" for s
    by (simp add: risk_row_of_def)
  have ids: "r_StudentID ` set (students_at_risk rnd d t) =
      {s_StudentID s | s. s \<in> set (Student d) \<and> s_Status s = ''Active'' \<and>
         (\<exists>g. rounded_gpa rnd d (s_StudentID s) = Some g \<and> g < t)}"
    unfolding set_eq image_image id by auto
  have cols: "\<forall>r \<in> set (students_at_risk rnd d t).
      r_GPA r = rounded_gpa rnd d (r_StudentID r) \<and>
      r_FailedCourses r =
        int (length (filter (\<lambda>e. e_Grade e = Some ''F'') (graded_enrollments d (r_StudentID r))))"
    unfolding set_eq
    by (auto simp: risk_row_of_def active_graded_eq rounded_gpa_sql)
  have srt: "sorted (map r_GPA (students_at_risk rnd d t))"
    by (simp add: students_at_risk_def sorted_sort_key)
  have "distinct (map r_StudentID
          (filter (\<lambda>r. sql_less (r_GPA r) t)
             (map (risk_select rnd) (group_by risk_key (students_at_risk_rows d)))))"
    using risk_rows_distinct [OF assms] by (rule distinct_map_filter)
  then have dst: "distinct (map r_StudentID (students_at_risk rnd d t))"
    by (simp add: students_at_risk_def distinct_map)
  have none: "\<forall>s \<in> set (Student d). graded_enrollments d (s_StudentID s) = [] \<longrightarrow>
      s_StudentID s \<notin> r_StudentID ` set (students_at_risk rnd d t)"
    unfolding ids by (auto simp: rounded_gpa_no_grades)
  from ids cols srt dst none show ?thesis by blast
qed

theorem students_at_risk_correct_witness:
  "integrity report_db \<and>
   2 \<in> r_StudentID ` set (students_at_risk round_to report_db (5 / 2)) \<and>
   6 \<in> r_StudentID ` set (students_at_risk round_to report_db (5 / 2)) \<and>
   3 \<notin> r_StudentID ` set (students_at_risk round_to report_db (5 / 2)) \<and>
   sorted (map r_GPA (students_at_risk round_to report_db (5 / 2)))"
proof -
  let ?bob = "\<lparr>s_StudentID = 2, s_FirstName = ''Bob'', s_LastName = ''Ross'',
                s_Email = ''bob@uni.edu'', s_ProgramID = 1, s_Status = ''Active''\<rparr>"
  let ?flo = "\<lparr>s_StudentID = 6, s_FirstName = ''Flo'', s_LastName = ''Rida'',
                s_Email = ''flo@uni.edu'', s_ProgramID = 2, s_Status = ''Active''\<rparr>"
  let ?cy = "\<lparr>s_StudentID = 3, s_FirstName = ''Cy'', s_LastName = ''Young'',
               s_Email = ''cy@uni.edu'', s_ProgramID = 2, s_Status = ''Active''\<rparr>"
  have members: "?bob \<in> set (Student report_db)" "?flo \<in> set (Student report_db)"
    "?cy \<in> set (Student report_db)"
    by (simp_all add: report_db_def)
  have g2: "rounded_gpa round_to report_db 2 = Some (67 / 100)"
    and g6: "rounded_gpa round_to report_db 6 = Some (3 / 2)"
    and g3: "graded_enrollments report_db 3 = []"
    by (simp_all add: rounded_gpa_def mapped_points_def grade_point_table_def
        graded_enrollments_def map_filter_simps round_to_def floor_numeral_div report_db_def)
  have e2: "\<exists>g. rounded_gpa round_to report_db 2 = Some g \<and> g < 5 / 2"
    unfolding g2 by (rule exI [of _ "67 / 100"]) simp
  have e6: "\<exists>g. rounded_gpa round_to report_db 6 = Some g \<and> g < 5 / 2"
    unfolding g6 by (rule exI [of _ "3 / 2"]) simp
  note risk = students_at_risk_correct [OF integrity_report_db, where rnd = round_to and t = "5 / 2"]
  from risk have ids: "r_StudentID ` set (students_at_risk round_to report_db (5 / 2)) =
      {s_StudentID s | s. s \<in> set (Student report_db) \<and> s_Status s = ''Active'' \<and>
         (\<exists>g. rounded_gpa round_to report_db (s_StudentID s) = Some g \<and> g < 5 / 2)}"
    by blast
  have "\<exists>s. 2 = s_StudentID s \<and> s \<in> set (Student report_db) \<and> s_Status s = ''Active'' \<and>
          (\<exists>g. rounded_gpa round_to report_db (s_StudentID s) = Some g \<and> g < 5 / 2)"
    by (rule exI [of _ ?bob]) (insert members e2, simp)
  then have a: "2 \<in> r_StudentID ` set (students_at_risk round_to report_db (5 / 2))"
    by (simp only: ids mem_Collect_eq)
  have "\<exists>s. 6 = s_StudentID s \<and> s \<in> set (Student report_db) \<and> s_Status s = ''Active'' \<and>
          (\<exists>g. rounded_gpa round_to report_db (s_StudentID s) = Some g \<and> g < 5 / 2)"
    by (rule exI [of _ ?flo]) (insert members e6, simp)
  then have b: "6 \<in> r_StudentID ` set (students_at_risk round_to report_db (5 / 2))"
    by (simp only: ids mem_Collect_eq)
  from risk have "\<forall>s \<in> set (Student report_db).
      graded_enrollments report_db (s_StudentID s) = [] \<longrightarrow>
      s_StudentID s \<notin> r_StudentID ` set (students_at_risk round_to report_db (5 / 2))"
    by blast
  from this members(3) have "graded_enrollments report_db (s_StudentID ?cy) = [] \<longrightarrow>
      s_StudentID ?cy \<notin> r_StudentID ` set (students_at_risk round_to report_db (5 / 2))"
    by (rule bspec)
  with g3 have c: "3 \<notin> r_StudentID ` set (students_at_risk round_to report_db (5 / 2))"
    by simp
  from risk have "sorted (map r_GPA (students_at_risk round_to report_db (5 / 2)))"
    by blast
  with a b c integrity_report_db show ?thesis by blast
qed

text \<open>
  Claim C10 does not hold of the code. \<open>semester_enrollment_report\<close> sums
  \<open>MaxStudents\<close> and \<open>CurrentEnrollment\<close> over the rows of the left join with
  \<open>Enrollment\<close>, so an offering with \<open>k\<close> enrollments is counted \<open>k\<close> times.
  For the spring term of 2024 in the report data the three offerings have a capacity of
  25 and 11 students enrolled, a fill rate of 44.0; the report gives 90, 41 and the
  rounding of 410/9 to one place, 45.6.
\<close>

theorem semester_enrollment_report_fan_out:
  "semester_enrollment_report rnd report_db ''Spring'' 2024 =
     \<lparr>CoursesOffered = 3, UniqueStudents = 6, TotalEnrollments = 11,
      TotalCapacity = Some 90, TotalEnrolled = Some 41,
      OverallFillRate = Some (rnd 1 (41 / 90 * 100))\<rparr> \<and>
   semester_enrollment_report round_to report_db ''Spring'' 2024 =
     \<lparr>CoursesOffered = 3, UniqueStudents = 6, TotalEnrollments = 11,
      TotalCapacity = Some 90, TotalEnrolled = Some 41, OverallFillRate = Some (228 / 5)\<rparr> \<and>
   sum_list (map co_MaxStudents
     (filter (\<lambda>co. co_Semester co = ''Spring'' \<and> co_Year co = 2024) (CourseOffering report_db))) = 25 \<and>
   sum_list (map co_CurrentEnrollment
     (filter (\<lambda>co. co_Semester co = ''Spring'' \<and> co_Year co = 2024) (CourseOffering report_db))) = 11 \<and>
   round_to 1 (11 / 25 * 100) = 44"
proof -
  have report: "semester_enrollment_report rnd report_db ''Spring'' 2024 =
     \<lparr>CoursesOffered = 3, UniqueStudents = 6, TotalEnrollments = 11,
      TotalCapacity = Some 90, TotalEnrolled = Some 41,
      OverallFillRate = Some (rnd 1 (41 / 90 * 100))\<rparr>" for rnd
    by (simp add: semester_enrollment_report_def semester_enrollment_rows_def
        left_join_enrollment_def sql_count_def sql_count_distinct_def sql_sum_def sql_div_def
        sql_round_def Let_def report_db_def)
  have "round_to 1 (41 / 90 * 100) = 228 / 5"
    by (simp add: round_to_def floor_numeral_div)
  with report [of round_to]
  have concrete: "semester_enrollment_report round_to report_db ''Spring'' 2024 =
     \<lparr>CoursesOffered = 3, UniqueStudents = 6, TotalEnrollments = 11,
      TotalCapacity = Some 90, TotalEnrolled = Some 41, OverallFillRate = Some (228 / 5)\<rparr>"
    by simp
  have sums: "sum_list (map co_MaxStudents
     (filter (\<lambda>co. co_Semester co = ''Spring'' \<and> co_Year co = 2024) (CourseOffering report_db))) = 25"
    "sum_list (map co_CurrentEnrollment
     (filter (\<lambda>co. co_Semester co = ''Spring'' \<and> co_Year co = 2024) (CourseOffering report_db))) = 11"
    by (simp_all add: report_db_def)
  have rate: "round_to 1 (11 / 25 * 100) = 44"
    by (simp add: round_to_def floor_numeral_div)
  from report concrete sums rate show ?thesis by blast
qed

end
